theory Spec2Isabelle
  imports Complex_Main "HOL-Library.Sublist"
begin

section \<open>JavaScript values\<close>

text \<open>
  The handler of \<^verbatim>\<open>src/api/research.js\<close> works on untyped JSON: the request body, the
  reply of the language model and the replies of the geocoder. A value is one of
  JavaScript's primitives, an array or a plain object (an association list; the first
  binding of a key is the property's value).

  A number is a double. The program only compares numbers and takes minima and maxima
  (no arithmetic that rounds), so a finite double is modelled by the rational it denotes;
  the three non-finite doubles are kept apart. Negative zero is identified with zero.

  A string is a sequence of UTF-16 code units; the model covers the strings whose code
  units lie in U+0000..U+00FF, written as HOL strings, one \<open>char\<close> per code unit.
\<close>

datatype jsnum = NaN | NegInf | Fin rat | PosInf

datatype jsval =
    JUndefined
  | JNull
  | JBool bool
  | JNum jsnum
  | JStr string
  | JArr "jsval list"
  | JObj "(string \<times> jsval) list"

text \<open>
  Every \<^verbatim>\<open>throw\<close> of the program and of the runtime under it is a value: \<open>TypeError\<close>
  is the engine's own (a method called on a value that has none, a conversion of an
  object that has no usable \<^verbatim>\<open>toString\<close>), \<open>Error m\<close> is \<^verbatim>\<open>new Error(m)\<close> of the source, and
  \<open>Rejected m\<close> is the rejection of a promise of the network layer.
\<close>

datatype js_error = TypeError | Error string | Rejected string

type_synonym 'a result = "js_error + 'a"

subsection \<open>Truthiness and property access\<close>

fun truthy :: "jsval \<Rightarrow> bool" where
  "truthy JUndefined = False"
| "truthy JNull = False"
| "truthy (JBool b) = b"
| "truthy (JNum n) = (n \<noteq> NaN \<and> n \<noteq> Fin 0)"
| "truthy (JStr s) = (s \<noteq> [])"
| "truthy (JArr xs) = True"
| "truthy (JObj kvs) = True"

text \<open>\<^verbatim>\<open>a || b\<close> on values.\<close>

definition or_else :: "jsval \<Rightarrow> jsval \<Rightarrow> jsval" where
  "or_else a b = (if truthy a then a else b)"

text \<open>
  \<^verbatim>\<open>v.k\<close> for the property names the program reads (none of them is defined on a
  prototype): the own property of an object, \<^verbatim>\<open>undefined\<close> on every other
  non-nullish value. The program reads a property of a possibly nullish value only
  through \<^verbatim>\<open>?.\<close>, which is \<open>opt_prop\<close>.
\<close>

fun get_prop :: "jsval \<Rightarrow> string \<Rightarrow> jsval" where
  "get_prop (JObj kvs) k = (case map_of kvs k of Some v \<Rightarrow> v | None \<Rightarrow> JUndefined)"
| "get_prop _ k = JUndefined"

definition opt_prop :: "jsval \<Rightarrow> string \<Rightarrow> jsval" where
  "opt_prop v k = (if v = JUndefined \<or> v = JNull then JUndefined else get_prop v k)"

text \<open>\<^verbatim>\<open>v?.[0]\<close>: the first element of an array, the first code unit of a string, the
  property \<^verbatim>\<open>"0"\<close> of an object.\<close>

fun opt_index0 :: "jsval \<Rightarrow> jsval" where
  "opt_index0 (JArr []) = JUndefined"
| "opt_index0 (JArr (x # xs)) = x"
| "opt_index0 (JStr []) = JUndefined"
| "opt_index0 (JStr (c # cs)) = JStr [c]"
| "opt_index0 (JObj kvs) = get_prop (JObj kvs) ''0''"
| "opt_index0 _ = JUndefined"

fun is_array :: "jsval \<Rightarrow> bool" where
  "is_array (JArr xs) = True"
| "is_array _ = False"

fun array_items :: "jsval \<Rightarrow> jsval list" where
  "array_items (JArr xs) = xs"
| "array_items _ = []"

text \<open>The element at an index, \<^verbatim>\<open>undefined\<close> past the end.\<close>

definition elem_at :: "jsval list \<Rightarrow> nat \<Rightarrow> jsval" where
  "elem_at xs i = (if i < length xs then xs ! i else JUndefined)"

subsection \<open>Strings\<close>

definition code_unit :: "char \<Rightarrow> nat" where
  "code_unit c = of_char c"

text \<open>White space and line terminators of ECMAScript below U+0100: TAB, LF, VT, FF, CR,
  SP and NBSP.\<close>

definition is_js_space :: "char \<Rightarrow> bool" where
  "is_js_space c = (code_unit c \<in> {9, 10, 11, 12, 13, 32, 160})"

definition trim_start :: "string \<Rightarrow> string" where
  "trim_start s = dropWhile is_js_space s"

definition trim :: "string \<Rightarrow> string" where
  "trim s = rev (dropWhile is_js_space (rev (dropWhile is_js_space s)))"

text \<open>\<^verbatim>\<open>toLowerCase\<close> below U+0100: A-Z, and the Latin-1 capitals U+00C0..U+00DE
  without the multiplication sign U+00D7, move up by 32.\<close>

definition lower_char :: "char \<Rightarrow> char" where
  "lower_char c =
     (let n = code_unit c in
      if (65 \<le> n \<and> n \<le> 90) \<or> (192 \<le> n \<and> n \<le> 222 \<and> n \<noteq> 215)
      then char_of (n + 32) else c)"

definition toLowerCase :: "string \<Rightarrow> string" where
  "toLowerCase s = map lower_char s"

text \<open>\<^verbatim>\<open>s.slice(0, e)\<close>: a negative end counts from the end of the string.\<close>

definition slice0 :: "string \<Rightarrow> int \<Rightarrow> string" where
  "slice0 s e =
     (let len = int (length s);
          to = (if e < 0 then max (len + e) 0 else min e len)
      in take (nat to) s)"

fun join_with :: "string \<Rightarrow> string list \<Rightarrow> string" where
  "join_with sep [] = []"
| "join_with sep [s] = s"
| "join_with sep (s # t # ss) = s @ sep @ join_with sep (t # ss)"

subsection \<open>Conversions of the runtime\<close>

text \<open>
  Two conversions of the engine are not code of the repository and are parameters of the
  model: the decimal text of a double that is not an integer below \<open>10^21\<close>
  (\<^verbatim>\<open>Number::toString\<close>) and the number a string denotes (\<^verbatim>\<open>StringToNumber\<close>).
\<close>

record runtime =
  num_text :: "rat \<Rightarrow> string"
  str_num :: "string \<Rightarrow> jsnum"

definition digit_char :: "nat \<Rightarrow> char" where
  "digit_char d = ''0123456789'' ! d"

fun dec_digits :: "nat \<Rightarrow> string" where
  "dec_digits n = (if n < 10 then [digit_char n] else dec_digits (n div 10) @ [digit_char (n mod 10)])"

declare dec_digits.simps [simp del]

definition int_text :: "int \<Rightarrow> string" where
  "int_text i = (if i < 0 then CHR ''-'' # dec_digits (nat (- i)) else dec_digits (nat i))"

fun number_text :: "runtime \<Rightarrow> jsnum \<Rightarrow> string" where
  "number_text rt NaN = ''NaN''"
| "number_text rt PosInf = ''Infinity''"
| "number_text rt NegInf = ''-Infinity''"
| "number_text rt (Fin q) =
     (if q = of_int \<lfloor>q\<rfloor> \<and> \<bar>q\<bar> < 10 ^ 21 then int_text \<lfloor>q\<rfloor> else num_text rt q)"

text \<open>
  \<^verbatim>\<open>String(v)\<close>. An array is joined with commas, \<^verbatim>\<open>null\<close> and \<^verbatim>\<open>undefined\<close> elements
  giving the empty string. A plain object gives \<^verbatim>\<open>[object Object]\<close> unless it has an own
  property \<^verbatim>\<open>toString\<close>: a JSON value is never callable, so the conversion then finds no
  method that returns a primitive and throws a TypeError.
\<close>

fun ToString :: "runtime \<Rightarrow> jsval \<Rightarrow> string result"
  and elem_texts :: "runtime \<Rightarrow> jsval list \<Rightarrow> string list result" where
  "ToString rt JUndefined = Inr ''undefined''"
| "ToString rt JNull = Inr ''null''"
| "ToString rt (JBool b) = Inr (if b then ''true'' else ''false'')"
| "ToString rt (JNum n) = Inr (number_text rt n)"
| "ToString rt (JStr s) = Inr s"
| "ToString rt (JArr xs) =
     (case elem_texts rt xs of Inl e \<Rightarrow> Inl e | Inr ss \<Rightarrow> Inr (join_with '','' ss))"
| "ToString rt (JObj kvs) =
     (if ''toString'' \<in> fst ` set kvs then Inl TypeError else Inr ''[object Object]'')"
| "elem_texts rt [] = Inr []"
| "elem_texts rt (x # xs) =
     (case (if x = JUndefined \<or> x = JNull then Inr [] else ToString rt x) of
        Inl e \<Rightarrow> Inl e
      | Inr s \<Rightarrow> (case elem_texts rt xs of Inl e \<Rightarrow> Inl e | Inr ss \<Rightarrow> Inr (s # ss)))"

text \<open>\<^verbatim>\<open>Number(v)\<close>: an array or object is first converted to its string.\<close>

fun ToNumber :: "runtime \<Rightarrow> jsval \<Rightarrow> jsnum result" where
  "ToNumber rt JUndefined = Inr NaN"
| "ToNumber rt JNull = Inr (Fin 0)"
| "ToNumber rt (JBool b) = Inr (Fin (if b then 1 else 0))"
| "ToNumber rt (JNum n) = Inr n"
| "ToNumber rt (JStr s) = Inr (str_num rt s)"
| "ToNumber rt v = (case ToString rt v of Inl e \<Rightarrow> Inl e | Inr s \<Rightarrow> Inr (str_num rt s))"

text \<open>\<^verbatim>\<open>v.trim()\<close>: only a string has the method.\<close>

fun trim_method :: "jsval \<Rightarrow> string result" where
  "trim_method (JStr s) = Inr (trim s)"
| "trim_method _ = Inl TypeError"

subsection \<open>Numbers\<close>

fun is_finite :: "jsnum \<Rightarrow> bool" where
  "is_finite (Fin q) = True"
| "is_finite _ = False"

text \<open>\<^verbatim>\<open>Math.max\<close> and \<^verbatim>\<open>Math.min\<close> of two numbers: NaN if either is NaN.\<close>

fun math_max :: "jsnum \<Rightarrow> jsnum \<Rightarrow> jsnum" where
  "math_max NaN b = NaN"
| "math_max a NaN = NaN"
| "math_max PosInf b = PosInf"
| "math_max a PosInf = PosInf"
| "math_max NegInf b = b"
| "math_max a NegInf = a"
| "math_max (Fin a) (Fin b) = Fin (max a b)"

fun math_min :: "jsnum \<Rightarrow> jsnum \<Rightarrow> jsnum" where
  "math_min NaN b = NaN"
| "math_min a NaN = NaN"
| "math_min NegInf b = NegInf"
| "math_min a NegInf = NegInf"
| "math_min PosInf b = b"
| "math_min a PosInf = a"
| "math_min (Fin a) (Fin b) = Fin (min a b)"

text \<open>\<^verbatim>\<open>clamp(n, min, max)\<close>, lines 270-272.\<close>

definition clamp :: "jsnum \<Rightarrow> jsnum \<Rightarrow> jsnum \<Rightarrow> jsnum" where
  "clamp n lo hi = math_max lo (math_min hi n)"

section \<open>The helpers of the handler\<close>

subsection \<open>\<^verbatim>\<open>clampInt\<close>, lines 264-268\<close>

text \<open>
  \<^verbatim>\<open>parseInt(v, 10)\<close> converts its argument to a string, skips leading white space, reads
  an optional sign and then the longest run of decimal digits; with no digit the result
  is NaN. The integer read is rounded to a double, which is infinite from
  \<open>2^1024 - 2^970\<close> on.
\<close>

datatype parsed_int = PNaN | PInt int | PInfinite

definition is_digit :: "char \<Rightarrow> bool" where
  "is_digit c = (48 \<le> code_unit c \<and> code_unit c \<le> 57)"

definition digits_value :: "string \<Rightarrow> int" where
  "digits_value ds = foldl (\<lambda>acc c. 10 * acc + (int (code_unit c) - 48)) 0 ds"

definition double_overflow :: int where
  "double_overflow = 2 ^ 1024 - 2 ^ 970"

definition parseInt10 :: "string \<Rightarrow> parsed_int" where
  "parseInt10 s =
     (let s1 = trim_start s;
          neg = (s1 \<noteq> [] \<and> hd s1 = CHR ''-'');
          s2 = (if s1 \<noteq> [] \<and> (hd s1 = CHR ''-'' \<or> hd s1 = CHR ''+'') then tl s1 else s1);
          ds = takeWhile is_digit s2
      in if ds = [] then PNaN
         else if double_overflow \<le> digits_value ds then PInfinite
         else PInt (if neg then - digits_value ds else digits_value ds))"

definition clampInt :: "runtime \<Rightarrow> jsval \<Rightarrow> int \<Rightarrow> int \<Rightarrow> int \<Rightarrow> int result" where
  "clampInt rt v lo hi fallback =
     (case ToString rt v of
        Inl e \<Rightarrow> Inl e
      | Inr s \<Rightarrow>
          (case parseInt10 s of
             PInt n \<Rightarrow> Inr (max lo (min hi n))
           | _ \<Rightarrow> Inr fallback))"

subsection \<open>\<^verbatim>\<open>slugify\<close> and \<^verbatim>\<open>safeId\<close>, lines 274-285\<close>

definition is_slug_char :: "char \<Rightarrow> bool" where
  "is_slug_char c =
     ((97 \<le> code_unit c \<and> code_unit c \<le> 122) \<or> (48 \<le> code_unit c \<and> code_unit c \<le> 57))"

text \<open>\<^verbatim>\<open>.replace(/[^a-z0-9]+/g, "-")\<close>: every maximal run of other characters becomes
  one hyphen. The flag says that the character before was part of such a run.\<close>

fun collapse_runs :: "bool \<Rightarrow> string \<Rightarrow> string" where
  "collapse_runs in_run [] = []"
| "collapse_runs in_run (c # cs) =
     (if is_slug_char c then c # collapse_runs False cs
      else if in_run then collapse_runs True cs
      else CHR ''-'' # collapse_runs True cs)"

text \<open>\<^verbatim>\<open>.replace(/(^-|-$)/g, "")\<close>: a hyphen at the start is removed, then a hyphen at
  the end of what is left.\<close>

definition strip_hyphens :: "string \<Rightarrow> string" where
  "strip_hyphens s =
     (let s1 = (if s \<noteq> [] \<and> hd s = CHR ''-'' then tl s else s)
      in if s1 \<noteq> [] \<and> last s1 = CHR ''-'' then butlast s1 else s1)"

text \<open>The chain of \<open>slugify\<close> before its \<^verbatim>\<open>|| "place"\<close>.\<close>

definition slug_text :: "string \<Rightarrow> string" where
  "slug_text s = take 64 (strip_hyphens (collapse_runs False (toLowerCase s)))"

definition slugify :: "runtime \<Rightarrow> jsval \<Rightarrow> string result" where
  "slugify rt s =
     (case ToString rt (or_else s (JStr [])) of
        Inl e \<Rightarrow> Inl e
      | Inr t \<Rightarrow> Inr (if slug_text t \<noteq> [] then slug_text t else ''place''))"

text \<open>\<open>rnd\<close> is the text of \<^verbatim>\<open>Math.random().toString(16).slice(2)\<close>.\<close>

definition safeId :: "runtime \<Rightarrow> string \<Rightarrow> jsval \<Rightarrow> string result" where
  "safeId rt rnd s =
     (case slugify rt s of
        Inl e \<Rightarrow> Inl e
      | Inr ident \<Rightarrow> Inr (if ident \<noteq> [] then ident else ''place-'' @ rnd))"

subsection \<open>The field sanitizers, lines 230-262\<close>

definition category_names :: "string list" where
  "category_names =
     [''sight'', ''museum'', ''neighborhood'', ''food'', ''viewpoint'', ''day_trip'', ''nature'',
      ''activity'']"

definition safeCategory :: "runtime \<Rightarrow> jsval \<Rightarrow> string result" where
  "safeCategory rt v =
     (case ToString rt (or_else v (JStr [])) of
        Inl e \<Rightarrow> Inl e
      | Inr t \<Rightarrow> Inr (if trim t \<in> set category_names then trim t else ''sight''))"

definition safeEnum :: "runtime \<Rightarrow> jsval \<Rightarrow> string list \<Rightarrow> string \<Rightarrow> string result" where
  "safeEnum rt v allowed fallback =
     (case ToString rt (or_else v (JStr [])) of
        Inl e \<Rightarrow> Inl e
      | Inr t \<Rightarrow> Inr (if trim t \<in> set allowed then trim t else fallback))"

definition safeString :: "runtime \<Rightarrow> jsval \<Rightarrow> int \<Rightarrow> string result" where
  "safeString rt v maxLen =
     (case ToString rt (or_else v (JStr [])) of
        Inl e \<Rightarrow> Inl e
      | Inr t \<Rightarrow>
          Inr (if trim t = [] then []
               else if int (length (trim t)) > maxLen then trim (slice0 (trim t) (maxLen - 1))
               else trim t))"

text \<open>The loop of \<^verbatim>\<open>safeStringArray\<close>: the length is tested after every item, pushed
  or not.\<close>

fun safeStringArray_loop :: "runtime \<Rightarrow> int \<Rightarrow> int \<Rightarrow> string list \<Rightarrow> jsval list \<Rightarrow> string list result" where
  "safeStringArray_loop rt maxItems maxItemLen out [] = Inr out"
| "safeStringArray_loop rt maxItems maxItemLen out (item # rest) =
     (case safeString rt item maxItemLen of
        Inl e \<Rightarrow> Inl e
      | Inr s \<Rightarrow>
          (let out' = (if s \<noteq> [] then out @ [s] else out)
           in if int (length out') \<ge> maxItems then Inr out'
              else safeStringArray_loop rt maxItems maxItemLen out' rest))"

definition safeStringArray :: "runtime \<Rightarrow> jsval \<Rightarrow> int \<Rightarrow> int \<Rightarrow> string list result" where
  "safeStringArray rt v maxItems maxItemLen =
     (if \<not> is_array v then Inr []
      else safeStringArray_loop rt maxItems maxItemLen [] (array_items v))"

text \<open>\<open>safeNumber\<close> returns \<^verbatim>\<open>null\<close> (\<open>None\<close>) or a number.\<close>

definition safeNumber :: "runtime \<Rightarrow> jsval \<Rightarrow> jsnum \<Rightarrow> jsnum \<Rightarrow> jsnum option result" where
  "safeNumber rt v lo hi =
     (case ToNumber rt v of
        Inl e \<Rightarrow> Inl e
      | Inr n \<Rightarrow> Inr (if \<not> is_finite n then None else Some (clamp n lo hi)))"

text \<open>What \<open>safeNumber\<close> returns, as the value a caller passes on.\<close>

fun number_or_null :: "jsnum option \<Rightarrow> jsval" where
  "number_or_null None = JNull"
| "number_or_null (Some n) = JNum n"

subsection \<open>\<^verbatim>\<open>geocodeConfidence\<close>, lines 204-214\<close>

text \<open>\<^verbatim>\<open>types.includes(x)\<close>: membership for an array, a substring test for a string; no
  other value has the method.\<close>

fun has_substring :: "string \<Rightarrow> string \<Rightarrow> bool" where
  "has_substring [] sub = (sub = [])"
| "has_substring (c # cs) sub = (prefix sub (c # cs) \<or> has_substring cs sub)"

fun js_includes :: "jsval \<Rightarrow> string \<Rightarrow> bool result" where
  "js_includes (JArr xs) x = Inr (JStr x \<in> set xs)"
| "js_includes (JStr s) x = Inr (has_substring s x)"
| "js_includes _ x = Inl TypeError"

fun is_number :: "jsval \<Rightarrow> bool" where
  "is_number (JNum n) = True"
| "is_number _ = False"

fun number_of :: "jsval \<Rightarrow> jsnum" where
  "number_of (JNum n) = n"
| "number_of _ = NaN"

definition geocodeConfidence :: "jsval \<Rightarrow> jsnum result" where
  "geocodeConfidence feature =
     (if is_number (opt_prop feature ''relevance'')
      then Inr (clamp (number_of (opt_prop feature ''relevance'')) (Fin 0) (Fin 1))
      else
        (let types = or_else (opt_prop feature ''place_type'') (JArr []) in
         case js_includes types ''poi'' of
           Inl e \<Rightarrow> Inl e
         | Inr True \<Rightarrow> Inr (Fin (78 / 100))
         | Inr False \<Rightarrow>
             (case js_includes types ''neighborhood'' of
                Inl e \<Rightarrow> Inl e
              | Inr True \<Rightarrow> Inr (Fin (72 / 100))
              | Inr False \<Rightarrow> Inr (Fin (65 / 100)))))"

subsection \<open>\<^verbatim>\<open>dedupePlaces\<close>, lines 218-228\<close>

record place =
  place_id :: string
  place_name :: string
  category :: string
  lat :: jsval
  lng :: jsval
  highlights :: "string list"
  why_go :: string
  time_needed_hours :: "jsnum option"
  best_time_of_day :: string
  tags :: "string list"
  confidence :: jsnum

definition dedupe_key :: "place \<Rightarrow> string" where
  "dedupe_key p = toLowerCase (place_id p) @ ''|'' @ toLowerCase (place_name p)"

fun dedupe_loop :: "string set \<Rightarrow> place list \<Rightarrow> place list \<Rightarrow> place list" where
  "dedupe_loop seen out [] = out"
| "dedupe_loop seen out (p # ps) =
     (if dedupe_key p \<in> seen then dedupe_loop seen out ps
      else dedupe_loop (insert (dedupe_key p) seen) (out @ [p]) ps)"

definition dedupePlaces :: "place list \<Rightarrow> place list" where
  "dedupePlaces places = dedupe_loop {} [] places"

section \<open>The outside world\<close>

text \<open>
  The handler reads three environment variables, the clock and the random generator, and
  awaits two services. All of it is the world \<open>w\<close>, a parameter of the model: the theorems
  hold for every world. A \<^verbatim>\<open>fetch\<close> either rejects or resolves to a response, whose body is
  read as text or parsed as JSON (either can reject). What the geocoder answers may
  depend on the request and on how many geocoder calls came before (the first argument
  of \<open>fetch_mapbox\<close>; call \<open>0\<close> is the one for the destination).
\<close>

record http_response =
  resp_ok :: bool
  resp_status :: nat
  resp_statusText :: string
  resp_text :: "string result"
  resp_json :: "jsval result"

text \<open>The parts of the request to the chat endpoint that vary: the four values the
  prompt interpolates, the key and the model.\<close>

record openai_request =
  oa_key :: string
  oa_model :: string
  oa_destination :: string
  oa_interests :: string
  oa_ask :: string
  oa_count :: int

record mapbox_request =
  mb_query :: string
  mb_token :: string
  mb_limit :: nat
  mb_types :: "string option"
  mb_bbox :: "string option"

record world =
  rt :: runtime
  env_OPENAI_API_KEY :: "string option"
  env_OPENAI_MODEL :: "string option"
  env_MAPBOX_TOKEN :: "string option"
  now_iso :: string
  random_hex :: "nat \<Rightarrow> string"
  json_parse :: "string \<Rightarrow> jsval option"
  fetch_openai :: "openai_request \<Rightarrow> http_response result"
  fetch_mapbox :: "nat \<Rightarrow> mapbox_request \<Rightarrow> http_response result"

text \<open>Sequencing of steps that can throw: the first error ends the computation.\<close>

definition and_then :: "'a result \<Rightarrow> ('a \<Rightarrow> 'b result) \<Rightarrow> 'b result" where
  "and_then x f = (case x of Inl e \<Rightarrow> Inl e | Inr v \<Rightarrow> f v)"

text \<open>A variable of the environment is falsy when it is unset or empty.\<close>

definition env_set :: "string option \<Rightarrow> bool" where
  "env_set v = (v \<noteq> None \<and> v \<noteq> Some [])"

subsection \<open>\<^verbatim>\<open>extractJsonObject\<close> and \<^verbatim>\<open>safeJsonParse\<close>, lines 287-297\<close>

text \<open>\<^verbatim>\<open>indexOf\<close> and \<^verbatim>\<open>lastIndexOf\<close> of one character; \<open>None\<close> is \<^verbatim>\<open>-1\<close>.\<close>

definition index_of :: "char \<Rightarrow> string \<Rightarrow> nat option" where
  "index_of c s = (if c \<in> set s then Some (length (takeWhile (\<lambda>d. d \<noteq> c) s)) else None)"

definition last_index_of :: "char \<Rightarrow> string \<Rightarrow> nat option" where
  "last_index_of c s =
     (if c \<in> set s then Some (length s - 1 - length (takeWhile (\<lambda>d. d \<noteq> c) (rev s))) else None)"

definition extractJsonObject :: "runtime \<Rightarrow> jsval \<Rightarrow> string result" where
  "extractJsonObject r text =
     and_then (ToString r (or_else text (JStr []))) (\<lambda>u.
       let t = trim u in
       Inr (case index_of (CHR ''{'') t of
              None \<Rightarrow> t
            | Some start \<Rightarrow>
                (case last_index_of (CHR ''}'') t of
                   None \<Rightarrow> t
                 | Some end_at \<Rightarrow>
                     if end_at > start then take (end_at + 1 - start) (drop start t) else t)))"

definition safeJsonParse :: "world \<Rightarrow> string \<Rightarrow> jsval" where
  "safeJsonParse w s = (case json_parse w s of None \<Rightarrow> JNull | Some v \<Rightarrow> v)"

subsection \<open>\<^verbatim>\<open>getCandidatePlacesFromLLM\<close>, lines 120-182\<close>

definition getCandidatePlacesFromLLM ::
  "world \<Rightarrow> string \<Rightarrow> string \<Rightarrow> string \<Rightarrow> jsval list \<Rightarrow> string \<Rightarrow> int \<Rightarrow> jsval result" where
  "getCandidatePlacesFromLLM w openaiKey model destinationQuery interests ask maxPlaces =
     and_then (elem_texts (rt w) interests) (\<lambda>ts.
     and_then (fetch_openai w
         \<lparr>oa_key = openaiKey, oa_model = model, oa_destination = destinationQuery,
          oa_interests = (if join_with '', '' ts \<noteq> [] then join_with '', '' ts else ''none specified''),
          oa_ask = (if ask \<noteq> [] then ask else ''(none)''),
          oa_count = maxPlaces\<rparr>) (\<lambda>resp.
     if \<not> resp_ok resp then
       (let t = (case resp_text resp of Inl e \<Rightarrow> [] | Inr t \<Rightarrow> t) in
        Inl (Error (''OpenAI error ('' @ int_text (int (resp_status resp)) @ ''): ''
                    @ (if t \<noteq> [] then t else resp_statusText resp))))
     else
       and_then (resp_json resp) (\<lambda>data.
       let content =
             or_else (opt_prop (opt_prop (opt_index0 (opt_prop data ''choices'')) ''message'') ''content'')
               (JStr []) in
       and_then (extractJsonObject (rt w) content) (\<lambda>s.
       let parsed = safeJsonParse w s in
       if \<not> truthy parsed then Inl (Error ''LLM did not return valid JSON.'')
       else Inr parsed))))"

subsection \<open>\<^verbatim>\<open>mapboxGeocode\<close>, lines 186-202\<close>

text \<open>\<open>k\<close> counts the geocoder calls made before this one.\<close>

definition mapboxGeocode ::
  "world \<Rightarrow> nat \<Rightarrow> string \<Rightarrow> string \<Rightarrow> nat \<Rightarrow> string \<Rightarrow> jsval \<Rightarrow> jsval result" where
  "mapboxGeocode w k token query limit types bbox =
     and_then
       (if truthy bbox \<and> is_array bbox \<and> length (array_items bbox) = 4
        then and_then (elem_texts (rt w) (array_items bbox)) (\<lambda>ts. Inr (Some (join_with '','' ts)))
        else Inr None) (\<lambda>bbox_param.
     and_then (fetch_mapbox w k
         \<lparr>mb_query = query, mb_token = token, mb_limit = limit,
          mb_types = (if types \<noteq> [] then Some types else None),
          mb_bbox = bbox_param\<rparr>) (\<lambda>resp.
     if \<not> resp_ok resp then
       (let t = (case resp_text resp of Inl e \<Rightarrow> [] | Inr t \<Rightarrow> t) in
        Inl (Error (''Mapbox geocode error ('' @ int_text (int (resp_status resp)) @ ''): ''
                    @ (if t \<noteq> [] then t else resp_statusText resp))))
     else resp_json resp))"

section \<open>The handler, lines 1-116\<close>

record request =
  req_method :: string
  req_body :: jsval

text \<open>
  The JSON document of a successful response. \<open>destination_bbox\<close> and
  \<open>geocode_provider\<close> are \<open>None\<close> when the object literal of the source has no such key.
\<close>

record success_body =
  destination_query :: string
  destination_bbox :: "jsval option"
  places :: "place list"
  generated_at :: string
  geocode_provider :: "string option"
  cache_hit :: bool

text \<open>What \<^verbatim>\<open>res.send\<close> or \<^verbatim>\<open>res.json\<close> is given: a text, the text
  \<^verbatim>\<open>err?.message || "Server error"\<close> of a caught error, or the JSON document.\<close>

datatype response_body = Text string | Message js_error | Json success_body

datatype response = Response nat response_body

text \<open>Line 83: \<^verbatim>\<open>safeId(c?.id || slugify(name))\<close>; \<open>k\<close> indexes the random draw.\<close>

definition candidate_id :: "world \<Rightarrow> nat \<Rightarrow> jsval \<Rightarrow> string \<Rightarrow> string result" where
  "candidate_id w k c name =
     (if truthy (opt_prop c ''id'') then safeId (rt w) (random_hex w k) (opt_prop c ''id'')
      else and_then (slugify (rt w) (JStr name)) (\<lambda>slug. safeId (rt w) (random_hex w k) (JStr slug)))"

definition times_of_day :: "string list" where
  "times_of_day = [''morning'', ''afternoon'', ''evening'', ''late_afternoon'', ''night'']"

text \<open>Lines 80-94: the place pushed for candidate \<open>c\<close> with top feature \<open>f\<close>;
  \<^verbatim>\<open>const [lng, lat] = f.center\<close> takes the first two elements of the array.\<close>

definition make_place :: "world \<Rightarrow> nat \<Rightarrow> jsval \<Rightarrow> string \<Rightarrow> jsval \<Rightarrow> place result" where
  "make_place w k c name f =
     and_then (candidate_id w k c name) (\<lambda>ident.
     and_then (safeCategory (rt w) (opt_prop c ''category'')) (\<lambda>cat.
     and_then (safeStringArray (rt w) (opt_prop c ''highlights'') 6 80) (\<lambda>hl.
     and_then (safeString (rt w) (opt_prop c ''why_go'') 260) (\<lambda>why.
     and_then (safeNumber (rt w) (opt_prop c ''time_needed_hours'') (Fin (1 / 2)) (Fin 12)) (\<lambda>hours.
     and_then (safeEnum (rt w) (opt_prop c ''best_time_of_day'') times_of_day ''afternoon'') (\<lambda>best.
     and_then (safeStringArray (rt w) (opt_prop c ''tags'') 8 30) (\<lambda>tgs.
     and_then (geocodeConfidence f) (\<lambda>conf.
     Inr \<lparr>place_id = ident, place_name = name, category = cat,
          lat = elem_at (array_items (get_prop f ''center'')) 1,
          lng = elem_at (array_items (get_prop f ''center'')) 0,
          highlights = hl, why_go = why, time_needed_hours = hours,
          best_time_of_day = best, tags = tgs, confidence = conf\<rparr>))))))))"

text \<open>Line 78: the test that lets a feature through.\<close>

definition usable_feature :: "jsval \<Rightarrow> bool" where
  "usable_feature f =
     (truthy f \<and> is_array (get_prop f ''center'') \<and> length (array_items (get_prop f ''center'')) = 2)"

text \<open>Lines 64-95: the loop over the candidates. \<open>k\<close> is the number of geocoder calls
  made so far, \<open>geocoded\<close> the places pushed so far.\<close>

fun geocode_loop ::
  "world \<Rightarrow> string \<Rightarrow> string \<Rightarrow> jsval \<Rightarrow> nat \<Rightarrow> place list \<Rightarrow> jsval list \<Rightarrow> place list result" where
  "geocode_loop w token destinationQuery destBbox k geocoded [] = Inr geocoded"
| "geocode_loop w token destinationQuery destBbox k geocoded (c # cs) =
     and_then (trim_method (or_else (opt_prop c ''name'') (JStr []))) (\<lambda>name.
     if name = [] then geocode_loop w token destinationQuery destBbox k geocoded cs
     else
       and_then (mapboxGeocode w k token (name @ '', '' @ destinationQuery) 1
                   ''poi,neighborhood,place,address'' destBbox) (\<lambda>r.
       let f = opt_index0 (opt_prop r ''features'') in
       if \<not> usable_feature f
       then geocode_loop w token destinationQuery destBbox (Suc k) geocoded cs
       else
         and_then (make_place w k c name f) (\<lambda>p.
         geocode_loop w token destinationQuery destBbox (Suc k) (geocoded @ [p]) cs)))"

text \<open>Line 15: the effective \<^verbatim>\<open>max_places\<close> of the request's \<^verbatim>\<open>options\<close>.\<close>

definition effective_max_places :: "runtime \<Rightarrow> jsval \<Rightarrow> int result" where
  "effective_max_places r options = clampInt r (opt_prop options ''max_places'') 5 25 15"

text \<open>Lines 8-17: what the handler reads from the body. It answers 400 at once when
  there is no destination.\<close>

record inputs =
  destinationQuery :: string
  maxPlaces :: int
  interests :: "jsval list"
  ask :: string

datatype 'a step = Respond response | Continue 'a

definition parse_request :: "runtime \<Rightarrow> jsval \<Rightarrow> inputs step result" where
  "parse_request r body =
     (let b = or_else body (JObj []);
          trip = get_prop b ''trip'';
          options = get_prop b ''options''
      in
      and_then (trim_method (or_else (opt_prop trip ''destination_query'') (JStr []))) (\<lambda>dq.
      if dq = [] then Inr (Respond (Response 400 (Text ''Missing trip.destination_query'')))
      else
        and_then (effective_max_places r options) (\<lambda>mp.
        and_then (trim_method (or_else (opt_prop trip ''ask'') (JStr []))) (\<lambda>a.
        Inr (Continue
          \<lparr>destinationQuery = dq, maxPlaces = mp,
           interests = (if is_array (opt_prop trip ''interests'')
                        then take 12 (array_items (opt_prop trip ''interests'')) else []),
           ask = a\<rparr>)))))"

text \<open>Lines 42-111: from the parsed reply of the language model to the response.\<close>

definition respond_with_candidates :: "world \<Rightarrow> string \<Rightarrow> inputs \<Rightarrow> jsval \<Rightarrow> response result" where
  "respond_with_candidates w token inp llmJson =
     (let candidates =
            (if is_array (opt_prop llmJson ''places'') then array_items (opt_prop llmJson ''places'')
             else [])
      in
      if candidates = [] then
        Inr (Response 200 (Json
          \<lparr>destination_query = destinationQuery inp, destination_bbox = None, places = [],
           generated_at = now_iso w, geocode_provider = None, cache_hit = False\<rparr>))
      else
        and_then (mapboxGeocode w 0 token (destinationQuery inp) 1 ''place,region,country''
                    JUndefined) (\<lambda>destGeo.
        let destBbox = or_else (opt_prop (opt_index0 (opt_prop destGeo ''features'')) ''bbox'') JNull in
        and_then (geocode_loop w token (destinationQuery inp) destBbox 1 []
                    (take (nat (maxPlaces inp)) candidates)) (\<lambda>geocoded.
        Inr (Response 200 (Json
          \<lparr>destination_query = destinationQuery inp, destination_bbox = Some destBbox,
           places = dedupePlaces geocoded,
           generated_at = now_iso w, geocode_provider = Some ''mapbox'', cache_hit = False\<rparr>)))))"

text \<open>Lines 33-40: the call of the language model with the handler's arguments.\<close>

definition openai_model :: "world \<Rightarrow> string" where
  "openai_model w =
     (if env_set (env_OPENAI_MODEL w) then the (env_OPENAI_MODEL w) else ''gpt-4o-mini'')"

definition ask_language_model :: "world \<Rightarrow> inputs \<Rightarrow> jsval result" where
  "ask_language_model w inp =
     getCandidatePlacesFromLLM w (the (env_OPENAI_API_KEY w)) (openai_model w)
       (destinationQuery inp) (interests inp) (ask inp) (maxPlaces inp)"

text \<open>The body of the \<^verbatim>\<open>try\<close> after the test of the method.\<close>

definition handler_try :: "world \<Rightarrow> request \<Rightarrow> response result" where
  "handler_try w req =
     and_then (parse_request (rt w) (req_body req)) (\<lambda>st.
     case st of
       Respond r \<Rightarrow> Inr r
     | Continue inp \<Rightarrow>
         if \<not> env_set (env_OPENAI_API_KEY w) then
           Inr (Response 500 (Text ''Server missing OPENAI_API_KEY''))
         else if \<not> env_set (env_MAPBOX_TOKEN w) then
           Inr (Response 500 (Text ''Server missing MAPBOX_TOKEN''))
         else
           and_then (ask_language_model w inp) (\<lambda>llmJson.
           respond_with_candidates w (the (env_MAPBOX_TOKEN w)) inp llmJson))"

definition handler :: "world \<Rightarrow> request \<Rightarrow> response" where
  "handler w req =
     (if req_method req \<noteq> ''POST'' then Response 405 (Text ''Method Not Allowed'')
      else case handler_try w req of
             Inl err \<Rightarrow> Response 500 (Message err)
           | Inr r \<Rightarrow> r)"

section \<open>Sample data\<close>

text \<open>Concrete values on which the theorems below are instantiated.\<close>

definition sample_place :: "string \<Rightarrow> string \<Rightarrow> jsval \<Rightarrow> place" where
  "sample_place ident name la =
     \<lparr>place_id = ident, place_name = name, category = ''sight'', lat = la, lng = JNum (Fin 0),
      highlights = [], why_go = [], time_needed_hours = None, best_time_of_day = ''afternoon'',
      tags = [], confidence = Fin (65 / 100)\<rparr>"

text \<open>A runtime for the examples; none of them converts a fraction to text or a text
  to a number, so the two conversions are placeholders there.\<close>

definition sample_runtime :: runtime where
  "sample_runtime = \<lparr>num_text = (\<lambda>q. []), str_num = (\<lambda>s. NaN)\<rparr>"

text \<open>A response with status 200 whose body parses to \<open>v\<close>, and the reply of the chat
  endpoint whose first choice has the text \<open>content\<close>.\<close>

definition ok_response :: "jsval \<Rightarrow> http_response" where
  "ok_response v =
     \<lparr>resp_ok = True, resp_status = 200, resp_statusText = ''OK'', resp_text = Inr [],
      resp_json = Inr v\<rparr>"

definition chat_reply :: "string \<Rightarrow> http_response" where
  "chat_reply content =
     ok_response (JObj [(''choices'', JArr [JObj [(''message'', JObj [(''content'', JStr content)])]])])"

definition quoted :: "string \<Rightarrow> string" where
  "quoted s = CHR 0x22 # s @ [CHR 0x22]"

text \<open>Two replies of the language model, as JSON text and as the value \<^verbatim>\<open>JSON.parse\<close>
  gives: no place, and two places named Atlantis and Torre de Belem.\<close>

definition no_places_text :: string where
  "no_places_text = ''{'' @ quoted ''places'' @ '':[]}''"

definition two_places_text :: string where
  "two_places_text =
     ''{'' @ quoted ''places'' @ '':[{'' @ quoted ''name'' @ '':'' @ quoted ''Atlantis'' @ ''},{''
       @ quoted ''name'' @ '':'' @ quoted ''Torre de Belem'' @ ''}]}''"

definition atlantis :: jsval where
  "atlantis = JObj [(''name'', JStr ''Atlantis'')]"

definition torre_de_belem :: jsval where
  "torre_de_belem = JObj [(''name'', JStr ''Torre de Belem'')]"

definition two_places :: jsval where
  "two_places = JObj [(''places'', JArr [atlantis, torre_de_belem])]"

text \<open>\<^verbatim>\<open>JSON.parse\<close> on these two texts; the examples parse no other text.\<close>

definition sample_json_parse :: "string \<Rightarrow> jsval option" where
  "sample_json_parse s =
     (if s = no_places_text then Some (JObj [(''places'', JArr [])])
      else if s = two_places_text then Some two_places
      else None)"

text \<open>A world in which the language model answers with \<open>content\<close> and the geocoder
  behaves as \<open>geo\<close>.\<close>

definition sample_world ::
  "string \<Rightarrow> (nat \<Rightarrow> mapbox_request \<Rightarrow> http_response result) \<Rightarrow> world" where
  "sample_world content geo =
     \<lparr>rt = sample_runtime, env_OPENAI_API_KEY = Some ''sk-test'', env_OPENAI_MODEL = None,
      env_MAPBOX_TOKEN = Some ''pk-test'', now_iso = ''2024-05-01T12:00:00.000Z'',
      random_hex = (\<lambda>k. ''8f3a''), json_parse = sample_json_parse,
      fetch_openai = (\<lambda>q. Inr (chat_reply content)), fetch_mapbox = geo\<rparr>"

definition lisbon_request :: request where
  "lisbon_request =
     \<lparr>req_method = ''POST'',
      req_body = JObj [(''trip'', JObj [(''destination_query'', JStr ''Lisbon'')])]\<rparr>"

text \<open>Three geocoders. The first is unreachable. The second knows the destination,
  finds nothing for the first candidate and a point of interest for the second. The
  third differs in the \<open>center\<close> of that feature: two \<^verbatim>\<open>null\<close>s.\<close>

definition geocoder_down :: "nat \<Rightarrow> mapbox_request \<Rightarrow> http_response result" where
  "geocoder_down k q = Inl (Rejected ''fetch failed'')"

definition feature_at :: "jsval \<Rightarrow> jsval" where
  "feature_at center =
     JObj [(''features'', JArr [JObj [(''center'', center), (''place_type'', JArr [JStr ''poi''])]])]"

definition geocoder_with :: "jsval \<Rightarrow> nat \<Rightarrow> mapbox_request \<Rightarrow> http_response result" where
  "geocoder_with center k q =
     Inr (ok_response (if k = 2 then feature_at center else JObj [(''features'', JArr [])]))"

definition belem_center :: jsval where
  "belem_center = JArr [JNum (Fin (- 92 / 10)), JNum (Fin (387 / 10))]"

definition belem_place :: "jsval \<Rightarrow> jsval \<Rightarrow> place" where
  "belem_place la lo =
     \<lparr>place_id = ''torre-de-belem'', place_name = ''Torre de Belem'', category = ''sight'',
      lat = la, lng = lo, highlights = [], why_go = [], time_needed_hours = None,
      best_time_of_day = ''afternoon'', tags = [], confidence = Fin (78 / 100)\<rparr>"

definition lisbon_body :: "place list \<Rightarrow> success_body" where
  "lisbon_body ps =
     \<lparr>destination_query = ''Lisbon'', destination_bbox = Some JNull, places = ps,
      generated_at = ''2024-05-01T12:00:00.000Z'', geocode_provider = Some ''mapbox'',
      cache_hit = False\<rparr>"

text \<open>What the handler reads from \<open>lisbon_request\<close>.\<close>

definition lisbon_inputs :: inputs where
  "lisbon_inputs = \<lparr>destinationQuery = ''Lisbon'', maxPlaces = 15, interests = [], ask = []\<rparr>"

text \<open>A coordinate as the claim about coordinates wants it: a finite number.\<close>

fun is_finite_number :: "jsval \<Rightarrow> bool" where
  "is_finite_number (JNum n) = is_finite n"
| "is_finite_number _ = False"

section \<open>Evaluation on concrete texts\<close>

text \<open>The equations that let the simplifier run the string functions on literals.\<close>

lemmas text_eval = code_unit_def is_js_space_def trim_start_def trim_def is_digit_def
  digit_char_def int_text_def dec_digits.simps

lemmas clampInt_eval = effective_max_places_def opt_prop_def clampInt_def parseInt10_def
  digits_value_def double_overflow_def

lemmas lower_eval = toLowerCase_def lower_char_def code_unit_def char_of_eq_iff

lemmas slug_eval = slugify_def safeId_def slug_text_def strip_hyphens_def is_slug_char_def

section \<open>The bounds of \<^verbatim>\<open>max_places\<close>\<close>

lemma clampInt_range:
  assumes "clampInt r v lo hi fallback = Inr n" and "lo \<le> hi" and "lo \<le> fallback" and "fallback \<le> hi"
  shows "lo \<le> n \<and> n \<le> hi"
  using assms by (auto simp: clampInt_def split: sum.splits parsed_int.splits)

lemma effective_max_places_range:
  "effective_max_places r options = Inr n \<Longrightarrow> 5 \<le> n \<and> n \<le> 25"
  using clampInt_range [of r "opt_prop options ''max_places''" 5 25 15 n]
  by (simp add: effective_max_places_def)

text \<open>
  C5. The values 1, 5, 15, 25, 99, \<^verbatim>\<open>"abc"\<close> and \<^verbatim>\<open>null\<close> of \<^verbatim>\<open>options.max_places\<close> give the
  effective values 5, 5, 15, 25, 25, 15 and 15: a parse that is not a finite number gives
  the default 15, a finite one is clamped into 5..25. Whatever the options are, the
  effective value lies in 5..25.
\<close>

theorem max_places_bounding:
  "map (\<lambda>v. effective_max_places r (JObj [(''max_places'', v)]))
     [JNum (Fin 1), JNum (Fin 5), JNum (Fin 15), JNum (Fin 25), JNum (Fin 99), JStr ''abc'', JNull]
   = map Inr [5, 5, 15, 25, 25, 15, 15]
   \<and> (effective_max_places r options = Inr n \<longrightarrow> 5 \<le> n \<and> n \<le> 25)"
  using effective_max_places_range [of r options n]
  by (simp add: clampInt_eval text_eval)

theorem max_places_bounding_witness:
  "effective_max_places sample_runtime (JObj [(''max_places'', JStr '' 40 places'')]) = Inr 25
   \<and> effective_max_places sample_runtime (JObj [(''max_places'', JStr ''-3'')]) = Inr 5
   \<and> (5::int) \<le> 25 \<and> (25::int) \<le> 25"
proof -
  have a: "effective_max_places sample_runtime (JObj [(''max_places'', JStr '' 40 places'')]) = Inr 25"
    by (simp add: clampInt_eval text_eval)
  have b: "effective_max_places sample_runtime (JObj [(''max_places'', JStr ''-3'')]) = Inr 5"
    by (simp add: clampInt_eval text_eval)
  show ?thesis
    using a b
      max_places_bounding [of sample_runtime "JObj [(''max_places'', JStr '' 40 places'')]" 25]
    by simp
qed

section \<open>Deduplication\<close>

lemma dedupe_loop_out: "dedupe_loop seen out ps = out @ dedupe_loop seen [] ps"
proof (induction ps arbitrary: seen out)
  case Nil
  show ?case by simp
next
  case (Cons p ps)
  show ?case
  proof (cases "dedupe_key p \<in> seen")
    case True
    then show ?thesis using Cons.IH [of seen out] by simp
  next
    case False
    have "dedupe_loop (insert (dedupe_key p) seen) (out @ [p]) ps
          = (out @ [p]) @ dedupe_loop (insert (dedupe_key p) seen) [] ps"
      by (rule Cons.IH)
    moreover have "dedupe_loop (insert (dedupe_key p) seen) [p] ps
          = [p] @ dedupe_loop (insert (dedupe_key p) seen) [] ps"
      by (rule Cons.IH)
    ultimately show ?thesis using False by simp
  qed
qed

lemma dedupe_loop_Cons:
  "dedupe_loop seen [] (p # ps) =
     (if dedupe_key p \<in> seen then dedupe_loop seen [] ps
      else p # dedupe_loop (insert (dedupe_key p) seen) [] ps)"
  using dedupe_loop_out [of "insert (dedupe_key p) seen" "[p]" ps] by simp

lemmas dedupe_simps = dedupe_loop.simps(2)

lemma dedupe_loop_subseq: "subseq (dedupe_loop seen [] ps) ps"
  by (induction ps arbitrary: seen) (auto simp: dedupe_loop_Cons simp del: dedupe_simps intro: subseq_Cons')

lemma dedupe_loop_keys_fresh:
  "dedupe_key ` set (dedupe_loop seen [] ps) \<inter> seen = {}"
  by (induction ps arbitrary: seen) (auto simp: dedupe_loop_Cons simp del: dedupe_simps)

lemma dedupe_loop_keys_distinct: "distinct (map dedupe_key (dedupe_loop seen [] ps))"
proof (induction ps arbitrary: seen)
  case Nil
  show ?case by simp
next
  case (Cons p ps)
  have "dedupe_key p \<notin> dedupe_key ` set (dedupe_loop (insert (dedupe_key p) seen) [] ps)"
    using dedupe_loop_keys_fresh [of "insert (dedupe_key p) seen" ps] by auto
  then show ?case using Cons.IH by (simp add: dedupe_loop_Cons del: dedupe_simps)
qed

lemma dedupe_loop_fixed:
  "distinct (map dedupe_key ps) \<Longrightarrow> dedupe_key ` set ps \<inter> seen = {} \<Longrightarrow> dedupe_loop seen [] ps = ps"
proof (induction ps arbitrary: seen)
  case Nil
  show ?case by simp
next
  case (Cons p ps)
  from Cons.prems have fresh: "dedupe_key p \<notin> seen" by auto
  from Cons.prems have "dedupe_key ` set ps \<inter> insert (dedupe_key p) seen = {}" by auto
  moreover from Cons.prems have "distinct (map dedupe_key ps)" by simp
  ultimately have "dedupe_loop (insert (dedupe_key p) seen) [] ps = ps" by (rule Cons.IH [rotated])
  then show ?case using fresh by (simp add: dedupe_loop_Cons del: dedupe_simps)
qed

lemma upt_0_Suc: "[0..<Suc n] = 0 # map Suc [0..<n]"
  by (simp add: upt_conv_Cons map_Suc_upt del: upt_Suc)

lemma dedupe_loop_positions:
  "dedupe_loop seen [] ps =
     map (nth ps) (filter (\<lambda>i. dedupe_key (ps ! i) \<notin> seen \<and> (\<forall>j<i. dedupe_key (ps ! j) \<noteq> dedupe_key (ps ! i)))
                     [0..<length ps])"
proof (induction ps arbitrary: seen)
  case Nil
  show ?case by simp
next
  case (Cons p ps)
  let ?k = "dedupe_key p"
  let ?P = "\<lambda>s qs i. dedupe_key (qs ! i) \<notin> s \<and> (\<forall>j<i. dedupe_key (qs ! j) \<noteq> dedupe_key (qs ! i))"
  have all_Suc: "\<And>Q i. (\<forall>j<Suc i. Q j) = (Q 0 \<and> (\<forall>j<i. Q (Suc j)))"
    by (metis less_Suc_eq_0_disj)
  have shift: "map (nth (p # ps)) (filter (?P seen (p # ps)) (map Suc [0..<length ps]))
        = map (nth ps) (filter (\<lambda>i. ?P seen (p # ps) (Suc i)) [0..<length ps])"
    by (simp add: filter_map comp_def)
  show ?case
  proof (cases "?k \<in> seen")
    case True
    have "\<And>i. ?P seen (p # ps) (Suc i) = ?P seen ps i"
      using True by (auto simp: all_Suc)
    then have "filter (\<lambda>i. ?P seen (p # ps) (Suc i)) [0..<length ps] = filter (?P seen ps) [0..<length ps]"
      by simp
    then show ?thesis
      using True Cons.IH [of seen] shift by (simp add: dedupe_loop_Cons upt_0_Suc del: upt_Suc dedupe_simps)
  next
    case False
    have "\<And>i. ?P seen (p # ps) (Suc i) = ?P (insert ?k seen) ps i"
      by (auto simp: all_Suc)
    then have "filter (\<lambda>i. ?P seen (p # ps) (Suc i)) [0..<length ps]
               = filter (?P (insert ?k seen) ps) [0..<length ps]"
      by simp
    then show ?thesis
      using False Cons.IH [of "insert ?k seen"] shift by (simp add: dedupe_loop_Cons upt_0_Suc del: upt_Suc dedupe_simps)
  qed
qed

text \<open>
  C6. \<open>dedupePlaces\<close> keys every place by the lower-cased \<^verbatim>\<open>id|name\<close> text, in the order
  of arrival, and keeps a place exactly when no earlier place has its key: of two places
  with the same key only the earlier one survives, and the survivors stand in the order
  of their first occurrence.
\<close>

theorem dedupe_first_per_key:
  "dedupePlaces ps =
     map (nth ps) (filter (\<lambda>i. \<forall>j<i. dedupe_key (ps ! j) \<noteq> dedupe_key (ps ! i)) [0..<length ps])"
  by (simp add: dedupePlaces_def dedupe_loop_positions)

theorem dedupe_first_per_key_witness:
  "dedupePlaces [sample_place ''louvre'' ''Louvre'' (JNum (Fin 1)),
                 sample_place ''orsay'' ''Orsay'' (JNum (Fin 2)),
                 sample_place ''Louvre'' ''LOUVRE'' (JNum (Fin 3))]
   = [sample_place ''louvre'' ''Louvre'' (JNum (Fin 1)), sample_place ''orsay'' ''Orsay'' (JNum (Fin 2))]"
proof -
  let ?ps = "[sample_place ''louvre'' ''Louvre'' (JNum (Fin 1)),
              sample_place ''orsay'' ''Orsay'' (JNum (Fin 2)),
              sample_place ''Louvre'' ''LOUVRE'' (JNum (Fin 3))]"
  have keys: "map dedupe_key ?ps = [''louvre|louvre'', ''orsay|orsay'', ''louvre|louvre'']"
    by (simp add: dedupe_key_def sample_place_def lower_eval)
  show ?thesis
    using dedupe_first_per_key [of ?ps] keys
    by (simp add: upt_rec eval_nat_numeral All_less_Suc)
qed

text \<open>
  C10. \<open>dedupePlaces\<close> is idempotent, and its result is a subsequence of its argument.
\<close>

theorem dedupe_idempotent_subseq:
  "dedupePlaces (dedupePlaces ps) = dedupePlaces ps \<and> subseq (dedupePlaces ps) ps"
  by (simp add: dedupePlaces_def dedupe_loop_subseq dedupe_loop_fixed dedupe_loop_keys_distinct)

section \<open>The field sanitizers applied twice\<close>

lemma dropWhile_rev_prefix_hd:
  assumes "xs = [] \<or> \<not> P (hd xs)"
  shows "dropWhile P (rev (dropWhile P (rev xs))) = rev (dropWhile P (rev xs))"
proof (cases "rev (dropWhile P (rev xs))")
  case Nil
  then show ?thesis by (simp only: dropWhile.simps)
next
  case (Cons y ys)
  have "rev (dropWhile P (rev xs)) = take (length xs - length (takeWhile P (rev xs))) xs"
    by (simp add: dropWhile_eq_drop rev_drop)
  with Cons have tk: "take (length xs - length (takeWhile P (rev xs))) xs = y # ys" by simp
  then have "xs \<noteq> []" by auto
  moreover from tk have "y = hd xs" by (cases xs) (auto simp: take_Cons' split: if_splits)
  ultimately have "\<not> P y" using assms by simp
  then show ?thesis using Cons by simp
qed

lemma trim_idem: "trim (trim s) = trim s"
proof -
  let ?u = "dropWhile is_js_space s"
  have "?u = [] \<or> \<not> is_js_space (hd ?u)"
    using hd_dropWhile [of is_js_space s] by blast
  then have "dropWhile is_js_space (trim s) = trim s"
    unfolding trim_def by (rule dropWhile_rev_prefix_hd)
  moreover have "rev (dropWhile is_js_space (rev (trim s))) = trim s"
    by (simp add: trim_def)
  ultimately show ?thesis by (simp add: trim_def)
qed

lemma length_trim_le: "length (trim s) \<le> length s"
proof -
  have "length (trim s) = length (dropWhile is_js_space (rev (dropWhile is_js_space s)))"
    by (simp add: trim_def)
  also have "\<dots> \<le> length (rev (dropWhile is_js_space s))" by (rule length_dropWhile_le)
  also have "\<dots> \<le> length s" by (simp add: length_dropWhile_le)
  finally show ?thesis .
qed

lemma ToString_or_else_JStr: "ToString r (or_else (JStr s) (JStr [])) = Inr s"
  by (simp add: or_else_def)

lemma safeString_idem:
  assumes "1 \<le> maxLen" and "safeString r v maxLen = Inr s"
  shows "safeString r (JStr s) maxLen = Inr s"
proof -
  from assms(2) obtain t where t: "ToString r (or_else v (JStr [])) = Inr t"
    by (auto simp: safeString_def split: sum.splits)
  with assms(2) have s: "s = (if trim t = [] then []
               else if int (length (trim t)) > maxLen then trim (slice0 (trim t) (maxLen - 1))
               else trim t)"
    by (simp add: safeString_def)
  have len: "int (length (trim (slice0 (trim t) (maxLen - 1)))) \<le> maxLen"
  proof -
    have "length (trim (slice0 (trim t) (maxLen - 1))) \<le> length (slice0 (trim t) (maxLen - 1))"
      by (rule length_trim_le)
    also have "int \<dots> \<le> maxLen" using assms(1) by (simp add: slice0_def Let_def)
    finally show ?thesis by simp
  qed
  have "trim s = s" using s by (auto simp: trim_idem) (simp add: trim_def)
  moreover have "s = [] \<or> int (length s) \<le> maxLen" using s len by auto
  ultimately show ?thesis by (auto simp: safeString_def ToString_or_else_JStr)
qed

lemma trim_category_names: "c \<in> set category_names \<Longrightarrow> trim c = c"
  by (auto simp: category_names_def trim_def is_js_space_def code_unit_def)

lemma safeCategory_idem:
  assumes "safeCategory r v = Inr c"
  shows "safeCategory r (JStr c) = Inr c"
proof -
  from assms have "c \<in> set category_names"
    by (auto simp: safeCategory_def category_names_def split: sum.splits if_splits)
  then show ?thesis by (simp add: safeCategory_def ToString_or_else_JStr trim_category_names)
qed

lemma safeEnum_idem:
  assumes "trim fallback = fallback" and "safeEnum r v allowed fallback = Inr e"
  shows "safeEnum r (JStr e) allowed fallback = Inr e"
proof -
  from assms(2) obtain t where "e = (if trim t \<in> set allowed then trim t else fallback)"
    by (auto simp: safeEnum_def split: sum.splits)
  then have "trim e = e \<and> (e \<in> set allowed \<or> e = fallback)"
    using assms(1) by (auto simp: trim_idem)
  then show ?thesis by (auto simp: safeEnum_def ToString_or_else_JStr)
qed

lemma clamp_idem:
  "clamp n lo hi = Fin q \<Longrightarrow> clamp (Fin q) lo hi = Fin q"
  by (cases n; cases lo; cases hi) (auto simp: clamp_def max_def min_def split: if_splits)

lemma safeNumber_idem:
  assumes "safeNumber r v lo hi = Inr (Some (Fin q))"
  shows "safeNumber r (JNum (Fin q)) lo hi = Inr (Some (Fin q))"
proof -
  from assms obtain n where "clamp n lo hi = Fin q"
    by (auto simp: safeNumber_def split: sum.splits if_splits)
  then show ?thesis by (simp add: safeNumber_def clamp_idem)
qed

lemma safeNumber_null: "safeNumber r JNull lo hi = Inr (Some (clamp (Fin 0) lo hi))"
  by (simp add: safeNumber_def)

text \<open>
  C2, as the code has it. Applied to its own result, \<open>safeString\<close> returns that result when
  the length bound is at least 1, \<open>safeCategory\<close> always does, \<open>safeEnum\<close> does when the
  fallback has no white space around it, and \<open>safeNumber\<close> does when the result is a
  finite number. A \<^verbatim>\<open>null\<close> result of \<open>safeNumber\<close> is not reproduced: \<^verbatim>\<open>Number(null)\<close> is 0,
  so the second application returns 0 clamped into the bounds.
\<close>

theorem sanitizers_idempotent_on_results:
  "(1 \<le> maxLen \<and> safeString r v1 maxLen = Inr s \<longrightarrow> safeString r (JStr s) maxLen = Inr s)
   \<and> (safeCategory r v2 = Inr c \<longrightarrow> safeCategory r (JStr c) = Inr c)
   \<and> (trim fallback = fallback \<and> safeEnum r v3 allowed fallback = Inr e
        \<longrightarrow> safeEnum r (JStr e) allowed fallback = Inr e)
   \<and> (safeNumber r v4 lo hi = Inr (Some (Fin q))
        \<longrightarrow> safeNumber r (number_or_null (Some (Fin q))) lo hi = Inr (Some (Fin q)))
   \<and> safeNumber r (number_or_null None) lo hi = Inr (Some (clamp (Fin 0) lo hi))"
  using safeString_idem [of maxLen r v1 s] safeCategory_idem [of r v2 c]
    safeEnum_idem [of fallback r v3 allowed e] safeNumber_idem [of r v4 lo hi q]
    safeNumber_null [of r lo hi]
  by simp

theorem sanitizers_idempotent_on_results_witness:
  "safeString sample_runtime (JStr ''  a long text '') 7 = Inr ''a long''
   \<and> safeString sample_runtime (JStr ''a long'') 7 = Inr ''a long''
   \<and> safeCategory sample_runtime (JStr '' museum'') = Inr ''museum''
   \<and> safeCategory sample_runtime (JStr ''museum'') = Inr ''museum''
   \<and> safeEnum sample_runtime (JStr ''noon'') times_of_day ''afternoon'' = Inr ''afternoon''
   \<and> safeEnum sample_runtime (JStr ''afternoon'') times_of_day ''afternoon'' = Inr ''afternoon''
   \<and> safeNumber sample_runtime (JNum (Fin 40)) (Fin (1 / 2)) (Fin 12) = Inr (Some (Fin 12))
   \<and> safeNumber sample_runtime (JNum (Fin 12)) (Fin (1 / 2)) (Fin 12) = Inr (Some (Fin 12))"
proof -
  have a: "safeString sample_runtime (JStr ''  a long text '') 7 = Inr ''a long''"
    by (simp add: safeString_def or_else_def slice0_def text_eval)
  have b: "safeCategory sample_runtime (JStr '' museum'') = Inr ''museum''"
    by (simp add: safeCategory_def or_else_def category_names_def text_eval)
  have c: "trim ''afternoon'' = ''afternoon''"
    by (simp add: text_eval)
  have d: "safeEnum sample_runtime (JStr ''noon'') times_of_day ''afternoon'' = Inr ''afternoon''"
    by (simp add: safeEnum_def or_else_def times_of_day_def text_eval)
  have e: "safeNumber sample_runtime (JNum (Fin 40)) (Fin (1 / 2)) (Fin 12) = Inr (Some (Fin 12))"
    by (simp add: safeNumber_def clamp_def)
  show ?thesis
    using a b c d e
      sanitizers_idempotent_on_results [of 7 sample_runtime "JStr ''  a long text ''" "''a long''"
        "JStr '' museum''" "''museum''" "''afternoon''" "JStr ''noon''" times_of_day "''afternoon''"
        "JNum (Fin 40)" "Fin (1 / 2)" "Fin 12" 12]
    by simp
qed

text \<open>
  C2 as stated fails. At the bounds the handler itself uses, \<open>safeNumber\<close> maps
  \<^verbatim>\<open>undefined\<close> to \<^verbatim>\<open>null\<close> and \<^verbatim>\<open>null\<close> to 0.5. With the length bound 0, \<open>safeString\<close> cuts one
  character from \<^verbatim>\<open>"ab"\<close> and one more from its own result. With a fallback that has white
  space around an allowed value, \<open>safeEnum\<close> returns the fallback and then the allowed
  value.
\<close>

theorem sanitizers_not_idempotent:
  "safeNumber sample_runtime JUndefined (Fin (1 / 2)) (Fin 12) = Inr None
   \<and> safeNumber sample_runtime (number_or_null None) (Fin (1 / 2)) (Fin 12) = Inr (Some (Fin (1 / 2)))
   \<and> safeString sample_runtime (JStr ''ab'') 0 = Inr ''a''
   \<and> safeString sample_runtime (JStr ''a'') 0 = Inr []
   \<and> safeEnum sample_runtime (JStr ''x'') [''morning''] '' morning '' = Inr '' morning ''
   \<and> safeEnum sample_runtime (JStr '' morning '') [''morning''] '' morning '' = Inr ''morning''"
  by (simp add: safeNumber_def clamp_def safeString_def safeEnum_def or_else_def slice0_def text_eval)

section \<open>The confidence of a geocoder match\<close>

lemma clamp_unit_Fin: "clamp (Fin q) (Fin 0) (Fin 1) = Fin (max 0 (min 1 q))"
  by (simp add: clamp_def)

lemma clamp_unit_range:
  "n \<noteq> NaN \<Longrightarrow> \<exists>q. clamp n (Fin 0) (Fin 1) = Fin q \<and> 0 \<le> q \<and> q \<le> 1"
  by (cases n) (auto simp: clamp_def)

text \<open>
  C4. A feature with a numeric \<^verbatim>\<open>relevance\<close> gets that number clamped into 0..1 (a finite
  \<open>q\<close> gives \<open>max 0 (min 1 q)\<close>, the infinities give 1 and 0). A feature without one, whose
  \<^verbatim>\<open>place_type\<close> is a sequence \<open>types\<close> (the empty one when the property is absent), gets 0.78
  if \<open>types\<close> has \<^verbatim>\<open>"poi"\<close>, else 0.72 if it has \<^verbatim>\<open>"neighborhood"\<close>, else 0.65.
\<close>

theorem geocodeConfidence_cases:
  "(opt_prop feature ''relevance'' = JNum n \<longrightarrow>
      geocodeConfidence feature = Inr (clamp n (Fin 0) (Fin 1)))
   \<and> clamp (Fin q) (Fin 0) (Fin 1) = Fin (max 0 (min 1 q))
   \<and> clamp PosInf (Fin 0) (Fin 1) = Fin 1
   \<and> clamp NegInf (Fin 0) (Fin 1) = Fin 0
   \<and> (\<not> is_number (opt_prop feature ''relevance'')
       \<and> or_else (opt_prop feature ''place_type'') (JArr []) = JArr types \<longrightarrow>
      geocodeConfidence feature =
        Inr (Fin (if JStr ''poi'' \<in> set types then 78 / 100
                  else if JStr ''neighborhood'' \<in> set types then 72 / 100
                  else 65 / 100)))"
  by (auto simp: geocodeConfidence_def clamp_def)

theorem geocodeConfidence_cases_witness:
  "geocodeConfidence (JObj [(''relevance'', JNum (Fin (9 / 10))), (''place_type'', JArr [JStr ''poi''])])
     = Inr (Fin (9 / 10))
   \<and> geocodeConfidence (JObj [(''relevance'', JNum (Fin (3 / 2)))]) = Inr (Fin 1)
   \<and> geocodeConfidence (JObj [(''place_type'', JArr [JStr ''address'', JStr ''poi''])]) = Inr (Fin (78 / 100))
   \<and> geocodeConfidence (JObj [(''place_type'', JArr [JStr ''neighborhood''])]) = Inr (Fin (72 / 100))
   \<and> geocodeConfidence (JObj [(''place_type'', JArr [JStr ''address''])]) = Inr (Fin (65 / 100))
   \<and> geocodeConfidence (JObj [(''center'', JArr [])]) = Inr (Fin (65 / 100))"
  using
    geocodeConfidence_cases [of "JObj [(''relevance'', JNum (Fin (9 / 10))), (''place_type'', JArr [JStr ''poi''])]"
      "Fin (9 / 10)" "9 / 10" "[]"]
    geocodeConfidence_cases [of "JObj [(''relevance'', JNum (Fin (3 / 2)))]" "Fin (3 / 2)" "3 / 2" "[]"]
    geocodeConfidence_cases [of "JObj [(''place_type'', JArr [JStr ''address'', JStr ''poi''])]" NaN 0
      "[JStr ''address'', JStr ''poi'']"]
    geocodeConfidence_cases [of "JObj [(''place_type'', JArr [JStr ''neighborhood''])]" NaN 0 "[JStr ''neighborhood'']"]
    geocodeConfidence_cases [of "JObj [(''place_type'', JArr [JStr ''address''])]" NaN 0 "[JStr ''address'']"]
    geocodeConfidence_cases [of "JObj [(''center'', JArr [])]" NaN 0 "[]"]
  by (simp add: opt_prop_def or_else_def)

text \<open>Outside the data model, a \<^verbatim>\<open>place_type\<close> that is neither falsy, an array nor a
  string has no \<^verbatim>\<open>includes\<close>: the call throws.\<close>

lemma geocodeConfidence_throws:
  "geocodeConfidence (JObj [(''place_type'', JNum (Fin 5))]) = Inl TypeError"
  by (simp add: geocodeConfidence_def opt_prop_def or_else_def)

section \<open>The id of a place\<close>

lemma safeId_is_slugify: "safeId r rnd s = slugify r s"
  by (auto simp: safeId_def slugify_def split: sum.splits)

lemma candidate_id_supplied:
  "truthy (opt_prop c ''id'') \<Longrightarrow> candidate_id w k c name = slugify (rt w) (opt_prop c ''id'')"
  by (simp add: candidate_id_def safeId_is_slugify)

lemma slugify_never_empty: "slugify r s \<noteq> Inr []"
  by (auto simp: slugify_def split: sum.splits)

lemma candidate_id_from_name:
  "\<not> truthy (opt_prop c ''id'') \<Longrightarrow>
     candidate_id w k c name = and_then (slugify (rt w) (JStr name)) (\<lambda>slug. slugify (rt w) (JStr slug))"
  by (simp add: candidate_id_def safeId_is_slugify)

text \<open>A name is slugified twice, by line 83 and then by \<open>safeId\<close>; the second pass removes
  a hyphen that the cut at 64 characters left at the end of the first.\<close>

lemma lower_slug: "is_slug_char c \<Longrightarrow> lower_char c = c"
  by (auto simp: is_slug_char_def lower_char_def)

lemma slug_text_cut:
  "slug_text (replicate 63 (CHR ''a'') @ '' b'') = replicate 63 (CHR ''a'') @ ''-''"
proof -
  have a: "is_slug_char (CHR ''a'')" by (simp add: is_slug_char_def code_unit_def)
  have "toLowerCase (replicate 63 (CHR ''a'') @ '' b'') = replicate 63 (CHR ''a'') @ '' b''"
    using a by (simp add: toLowerCase_def lower_slug) (simp add: lower_char_def code_unit_def)
  moreover have "\<And>n rest. collapse_runs False (replicate n (CHR ''a'') @ rest) = replicate n (CHR ''a'') @ collapse_runs False rest"
    subgoal for n rest using a by (induction n) auto
    done
  moreover have "collapse_runs False '' b'' = ''-b''"
    by (simp add: is_slug_char_def code_unit_def)
  ultimately have "collapse_runs False (toLowerCase (replicate 63 (CHR ''a'') @ '' b'')) = replicate 63 (CHR ''a'') @ ''-b''"
    by simp
  moreover have "strip_hyphens (replicate 63 (CHR ''a'') @ ''-b'') = replicate 63 (CHR ''a'') @ ''-b''"
    by (simp add: strip_hyphens_def hd_append eval_nat_numeral)
  ultimately show ?thesis by (simp add: slug_text_def)
qed

lemma slug_text_again:
  "slug_text (replicate 63 (CHR ''a'') @ ''-'') = replicate 63 (CHR ''a'')"
proof -
  have a: "is_slug_char (CHR ''a'')" by (simp add: is_slug_char_def code_unit_def)
  have "toLowerCase (replicate 63 (CHR ''a'') @ ''-'') = replicate 63 (CHR ''a'') @ ''-''"
    using a by (simp add: toLowerCase_def lower_slug) (simp add: lower_char_def code_unit_def)
  moreover have "\<And>n rest. collapse_runs False (replicate n (CHR ''a'') @ rest) = replicate n (CHR ''a'') @ collapse_runs False rest"
    subgoal for n rest using a by (induction n) auto
    done
  moreover have "collapse_runs False ''-'' = ''-''"
    by (simp add: is_slug_char_def code_unit_def)
  ultimately have "collapse_runs False (toLowerCase (replicate 63 (CHR ''a'') @ ''-'')) = replicate 63 (CHR ''a'') @ ''-''"
    by simp
  moreover have "strip_hyphens (replicate 63 (CHR ''a'') @ ''-'') = replicate 63 (CHR ''a'')"
    by (simp add: strip_hyphens_def hd_append eval_nat_numeral)
  ultimately show ?thesis by (simp add: slug_text_def)
qed

lemma name_slugified_twice:
  "candidate_id w k (JObj []) (replicate 63 (CHR ''a'') @ '' b'') = Inr (replicate 63 (CHR ''a''))"
  by (simp add: candidate_id_def safeId_is_slugify slugify_def or_else_def opt_prop_def and_then_def
      slug_text_cut slug_text_again)

text \<open>
  C3. The id of a candidate whose own id slugifies to nothing is the fixed text
  \<^verbatim>\<open>place\<close>, in every world: \<open>slugify\<close> already ends in \<^verbatim>\<open>|| "place"\<close>, so the random
  fallback of \<open>safeId\<close> is never taken and the random generator plays no part.
\<close>

theorem candidate_id_fixed_fallback:
  "candidate_id w k (JObj [(''id'', JStr ''!!!''), (''name'', JStr ''Tokyo Tower'')]) ''Tokyo Tower'' = Inr ''place''"
  by (simp add: candidate_id_def opt_prop_def or_else_def slug_eval lower_eval)

section \<open>The handler\<close>

subsection \<open>Runs on the sample data\<close>

lemmas sample_eval = sample_world_def sample_runtime_def sample_json_parse_def no_places_text_def
  two_places_text_def two_places_def atlantis_def torre_de_belem_def quoted_def chat_reply_def
  ok_response_def lisbon_request_def geocoder_down_def geocoder_with_def feature_at_def
  belem_center_def belem_place_def lisbon_body_def

lemmas request_eval = parse_request_def and_then_def or_else_def opt_prop_def env_set_def
  openai_model_def

lemmas llm_eval = ask_language_model_def getCandidatePlacesFromLLM_def extractJsonObject_def
  safeJsonParse_def index_of_def last_index_of_def

lemmas place_eval = make_place_def candidate_id_def usable_feature_def elem_at_def
  safeCategory_def category_names_def safeStringArray_def safeString_def safeNumber_def
  safeEnum_def times_of_day_def geocodeConfidence_def

lemmas handler_eval = handler_def handler_try_def respond_with_candidates_def mapboxGeocode_def
  dedupePlaces_def dedupe_key_def

lemma parse_lisbon:
  "parse_request r (req_body lisbon_request) = Inr (Continue lisbon_inputs)"
  by (simp add: lisbon_request_def lisbon_inputs_def request_eval clampInt_eval text_eval)

lemma llm_no_places:
  "ask_language_model (sample_world no_places_text geo) lisbon_inputs = Inr (JObj [(''places'', JArr [])])"
  by (simp add: llm_eval sample_eval request_eval text_eval lisbon_inputs_def)

lemma geocode_atlantis:
  "mapboxGeocode (sample_world content (geocoder_with center)) 1 ''pk-test'' (''Atlantis'' @ '', '' @ ''Lisbon'') 1
     ''poi,neighborhood,place,address'' JNull = Inr (JObj [(''features'', JArr [])])"
  by (simp add: mapboxGeocode_def sample_eval and_then_def)

lemma geocode_belem:
  "mapboxGeocode (sample_world content (geocoder_with center)) 2 ''pk-test'' (''Torre de Belem'' @ '', '' @ ''Lisbon'') 1
     ''poi,neighborhood,place,address'' JNull = Inr (feature_at center)"
  by (simp add: mapboxGeocode_def sample_eval and_then_def)

lemma belem_loop:
  "geocode_loop (sample_world content (geocoder_with (JArr [a, b]))) ''pk-test'' ''Lisbon'' JNull 2 [] [torre_de_belem]
     = Inr [belem_place b a]"
  by (simp add: handler_eval sample_eval request_eval place_eval slug_eval lower_eval text_eval)

lemma handler_two_places:
  "handler (sample_world two_places_text (geocoder_with (JArr [a, b]))) lisbon_request
     = Response 200 (Json (lisbon_body [belem_place b a]))"
  by (simp add: handler_eval llm_eval sample_eval request_eval place_eval slug_eval lower_eval
      text_eval clampInt_eval)

subsection \<open>A request without a trip\<close>

text \<open>
  C9. A POST request whose body is missing or \<^verbatim>\<open>null\<close> (or falsy in another way), or whose
  body has no \<^verbatim>\<open>trip\<close> (or a \<^verbatim>\<open>null\<close> one), is answered with 400 and the text
  \<^verbatim>\<open>Missing trip.destination_query\<close>: nothing is thrown and no 500 is sent.
\<close>

theorem missing_trip_is_400:
  assumes "req_method req = ''POST''"
    and "\<not> truthy (req_body req) \<or> get_prop (req_body req) ''trip'' = JUndefined
         \<or> get_prop (req_body req) ''trip'' = JNull"
  shows "handler w req = Response 400 (Text ''Missing trip.destination_query'')"
proof -
  have "opt_prop (get_prop (or_else (req_body req) (JObj [])) ''trip'') ''destination_query'' = JUndefined"
    using assms(2) by (auto simp: or_else_def opt_prop_def)
  then have "parse_request (rt w) (req_body req)
             = Inr (Respond (Response 400 (Text ''Missing trip.destination_query'')))"
    by (simp add: parse_request_def Let_def and_then_def or_else_def trim_def)
  then show ?thesis
    using assms(1) by (simp add: handler_def handler_try_def and_then_def)
qed

theorem missing_trip_is_400_witness:
  "handler (sample_world no_places_text geocoder_down) \<lparr>req_method = ''POST'', req_body = JUndefined\<rparr>
     = Response 400 (Text ''Missing trip.destination_query'')
   \<and> handler (sample_world no_places_text geocoder_down) \<lparr>req_method = ''POST'', req_body = JNull\<rparr>
     = Response 400 (Text ''Missing trip.destination_query'')
   \<and> handler (sample_world no_places_text geocoder_down)
       \<lparr>req_method = ''POST'', req_body = JObj [(''options'', JObj [(''max_places'', JNum (Fin 7))])]\<rparr>
     = Response 400 (Text ''Missing trip.destination_query'')"
  using
    missing_trip_is_400 [of "\<lparr>req_method = ''POST'', req_body = JUndefined\<rparr>"
      "sample_world no_places_text geocoder_down"]
    missing_trip_is_400 [of "\<lparr>req_method = ''POST'', req_body = JNull\<rparr>"
      "sample_world no_places_text geocoder_down"]
    missing_trip_is_400 [of "\<lparr>req_method = ''POST'', req_body = JObj [(''options'', JObj [(''max_places'', JNum (Fin 7))])]\<rparr>"
      "sample_world no_places_text geocoder_down"]
  by simp

subsection \<open>No candidates\<close>

lemma ask_language_model_mapbox:
  "ask_language_model (w\<lparr>fetch_mapbox := g\<rparr>) inp = ask_language_model w inp"
  by (simp add: ask_language_model_def getCandidatePlacesFromLLM_def openai_model_def
      safeJsonParse_def cong: if_cong)

text \<open>
  C7. When the parsed reply of the language model has an empty \<^verbatim>\<open>places\<close> array, the
  handler answers 200 with no place, and its JSON has neither \<^verbatim>\<open>geocode_provider\<close> nor
  \<^verbatim>\<open>bbox\<close>. The geocoder is not called: the response is the same whatever geocoder \<open>g\<close>
  the world has, one that always fails included.
\<close>

theorem no_candidates_no_geocoding:
  assumes "req_method req = ''POST''"
    and "parse_request (rt w) (req_body req) = Inr (Continue inp)"
    and "env_set (env_OPENAI_API_KEY w)" and "env_set (env_MAPBOX_TOKEN w)"
    and "ask_language_model w inp = Inr llmJson"
    and "opt_prop llmJson ''places'' = JArr []"
  shows "handler (w\<lparr>fetch_mapbox := g\<rparr>) req =
           Response 200 (Json
             \<lparr>destination_query = destinationQuery inp, destination_bbox = None, places = [],
              generated_at = now_iso w, geocode_provider = None, cache_hit = False\<rparr>)"
  using assms
  by (simp add: handler_def handler_try_def and_then_def respond_with_candidates_def
      ask_language_model_mapbox)

theorem no_candidates_no_geocoding_witness:
  "handler (sample_world no_places_text geocoder_down) lisbon_request =
     Response 200 (Json
       \<lparr>destination_query = ''Lisbon'', destination_bbox = None, places = [],
        generated_at = ''2024-05-01T12:00:00.000Z'', geocode_provider = None, cache_hit = False\<rparr>)"
proof -
  let ?w = "sample_world no_places_text (\<lambda>k q. Inr (ok_response JNull))"
  have "handler (?w\<lparr>fetch_mapbox := geocoder_down\<rparr>) lisbon_request =
     Response 200 (Json
       \<lparr>destination_query = destinationQuery lisbon_inputs, destination_bbox = None, places = [],
        generated_at = now_iso ?w, geocode_provider = None, cache_hit = False\<rparr>)"
  proof (rule no_candidates_no_geocoding)
    show "req_method lisbon_request = ''POST''" by (simp add: lisbon_request_def)
    show "parse_request (rt ?w) (req_body lisbon_request) = Inr (Continue lisbon_inputs)"
      by (rule parse_lisbon)
    show "env_set (env_OPENAI_API_KEY ?w)" by (simp add: sample_world_def env_set_def)
    show "env_set (env_MAPBOX_TOKEN ?w)" by (simp add: sample_world_def env_set_def)
    show "ask_language_model ?w lisbon_inputs = Inr (JObj [(''places'', JArr [])])"
      by (rule llm_no_places)
    show "opt_prop (JObj [(''places'', JArr [])]) ''places'' = JArr []"
      by (simp add: opt_prop_def)
  qed
  then show ?thesis by (simp add: sample_world_def lisbon_inputs_def)
qed

subsection \<open>Candidates the geocoder does not find\<close>

lemma geocode_loop_drop:
  assumes "trim_method (or_else (opt_prop c ''name'') (JStr [])) = Inr name" and "name \<noteq> []"
    and "mapboxGeocode w k token (name @ '', '' @ dq) 1 ''poi,neighborhood,place,address'' bbox = Inr r"
    and "\<not> usable_feature (opt_index0 (opt_prop r ''features''))"
  shows "geocode_loop w token dq bbox k geocoded (c # cs)
         = geocode_loop w token dq bbox (Suc k) geocoded cs"
  using assms by (simp add: and_then_def)

lemma no_feature_unusable: "opt_prop r ''features'' = JArr [] \<Longrightarrow> \<not> usable_feature (opt_index0 (opt_prop r ''features''))"
  by (simp add: usable_feature_def)

text \<open>
  C8. A candidate with a name, whose geocoder lookup succeeds and returns no feature,
  adds no place and raises no error: the loop goes on with the remaining candidates and
  the places found so far, exactly as it would without that candidate after one more
  geocoder call.
\<close>

theorem zero_features_candidate_skipped:
  assumes "trim_method (or_else (opt_prop c ''name'') (JStr [])) = Inr name" and "name \<noteq> []"
    and "mapboxGeocode w k token (name @ '', '' @ dq) 1 ''poi,neighborhood,place,address'' bbox = Inr r"
    and "opt_prop r ''features'' = JArr []"
  shows "geocode_loop w token dq bbox k geocoded (c # cs)
         = geocode_loop w token dq bbox (Suc k) geocoded cs"
  using assms(1-3) no_feature_unusable [OF assms(4)] by (rule geocode_loop_drop)

theorem zero_features_candidate_skipped_witness:
  "geocode_loop (sample_world two_places_text (geocoder_with belem_center)) ''pk-test'' ''Lisbon'' JNull 1 []
      [atlantis, torre_de_belem]
     = Inr [belem_place (JNum (Fin (387 / 10))) (JNum (Fin (- 92 / 10)))]
   \<and> handler (sample_world two_places_text (geocoder_with belem_center)) lisbon_request
     = Response 200 (Json (lisbon_body [belem_place (JNum (Fin (387 / 10))) (JNum (Fin (- 92 / 10)))]))"
proof -
  let ?w = "sample_world two_places_text (geocoder_with belem_center)"
  have "geocode_loop ?w ''pk-test'' ''Lisbon'' JNull 1 [] (atlantis # [torre_de_belem])
        = geocode_loop ?w ''pk-test'' ''Lisbon'' JNull (Suc 1) [] [torre_de_belem]"
  proof (rule zero_features_candidate_skipped)
    show "trim_method (or_else (opt_prop atlantis ''name'') (JStr [])) = Inr ''Atlantis''"
      by (simp add: atlantis_def request_eval text_eval)
    show "''Atlantis'' \<noteq> []" by simp
    show "mapboxGeocode ?w 1 ''pk-test'' (''Atlantis'' @ '', '' @ ''Lisbon'') 1
            ''poi,neighborhood,place,address'' JNull = Inr (JObj [(''features'', JArr [])])"
      by (rule geocode_atlantis)
    show "opt_prop (JObj [(''features'', JArr [])]) ''features'' = JArr []"
      by (simp add: opt_prop_def)
  qed
  also have "Suc 1 = (2::nat)" by simp
  also have "geocode_loop ?w ''pk-test'' ''Lisbon'' JNull 2 [] [torre_de_belem]
        = Inr [belem_place (JNum (Fin (387 / 10))) (JNum (Fin (- 92 / 10)))]"
    unfolding belem_center_def by (rule belem_loop)
  finally have loop: "geocode_loop ?w ''pk-test'' ''Lisbon'' JNull 1 [] [atlantis, torre_de_belem]
        = Inr [belem_place (JNum (Fin (387 / 10))) (JNum (Fin (- 92 / 10)))]" .
  have "handler ?w lisbon_request
     = Response 200 (Json (lisbon_body [belem_place (JNum (Fin (387 / 10))) (JNum (Fin (- 92 / 10)))]))"
    unfolding belem_center_def by (rule handler_two_places)
  with loop show ?thesis by (rule conjI)
qed

subsection \<open>The coordinates of a place\<close>

lemma usable_center:
  assumes "usable_feature f"
  obtains a b where "get_prop f ''center'' = JArr [a, b]"
proof -
  from assms obtain xs where xs: "get_prop f ''center'' = JArr xs" and "length xs = 2"
    by (cases "get_prop f ''center''") (auto simp: usable_feature_def)
  then obtain a b where "xs = [a, b]"
    by (cases xs; cases "tl xs") auto
  with xs that show ?thesis by simp
qed

lemma make_place_coords:
  assumes "make_place w k c name f = Inr p" and "usable_feature f"
  shows "get_prop f ''center'' = JArr [lng p, lat p]"
proof -
  from assms(2) obtain a b where ab: "get_prop f ''center'' = JArr [a, b]" by (rule usable_center)
  from assms(1) have "lng p = elem_at (array_items (get_prop f ''center'')) 0
      \<and> lat p = elem_at (array_items (get_prop f ''center'')) 1"
    by (auto simp: make_place_def and_then_def split: sum.splits)
  with ab show ?thesis by (simp add: elem_at_def)
qed

lemma geocode_loop_places:
  assumes "geocode_loop w token dq bb k out cs = Inr res" and "p \<in> set res"
  shows "p \<in> set out \<or>
         (\<exists>k' query r. mapboxGeocode w k' token query 1 ''poi,neighborhood,place,address'' bb = Inr r
            \<and> get_prop (opt_index0 (opt_prop r ''features'')) ''center'' = JArr [lng p, lat p])"
  using assms
proof (induction cs arbitrary: k out)
  case Nil
  then show ?case by simp
next
  case (Cons c cs)
  let ?types = "''poi,neighborhood,place,address''"
  from Cons.prems(1) obtain name where name: "trim_method (or_else (opt_prop c ''name'') (JStr [])) = Inr name"
    by (auto simp: and_then_def split: sum.splits)
  show ?case
  proof (cases "name = []")
    case True
    with Cons.prems(1) name have "geocode_loop w token dq bb k out cs = Inr res"
      by (simp add: and_then_def)
    then show ?thesis using Cons.prems(2) by (rule Cons.IH)
  next
    case False
    note nonempty = this
    with Cons.prems(1) name obtain r where r: "mapboxGeocode w k token (name @ '', '' @ dq) 1 ?types bb = Inr r"
      by (auto simp: and_then_def split: sum.splits)
    let ?f = "opt_index0 (opt_prop r ''features'')"
    show ?thesis
    proof (cases "usable_feature ?f")
      case False
      with Cons.prems(1) name nonempty r have "geocode_loop w token dq bb (Suc k) out cs = Inr res"
        by (simp add: and_then_def)
      then show ?thesis using Cons.prems(2) by (rule Cons.IH)
    next
      case True
      note usable = this
      with Cons.prems(1) name nonempty r obtain q where q: "make_place w k c name ?f = Inr q"
        and rest: "geocode_loop w token dq bb (Suc k) (out @ [q]) cs = Inr res"
        by (auto simp: and_then_def split: sum.splits)
      from rest Cons.prems(2) have "p \<in> set (out @ [q]) \<or>
         (\<exists>k' query r. mapboxGeocode w k' token query 1 ?types bb = Inr r
            \<and> get_prop (opt_index0 (opt_prop r ''features'')) ''center'' = JArr [lng p, lat p])"
        by (rule Cons.IH)
      moreover have "get_prop ?f ''center'' = JArr [lng q, lat q]"
        using q usable by (rule make_place_coords)
      ultimately show ?thesis using r by auto
    qed
  qed
qed

lemma parse_request_responds:
  "parse_request r body = Inr (Respond resp) \<Longrightarrow> resp = Response 400 (Text ''Missing trip.destination_query'')"
  by (auto simp: parse_request_def Let_def and_then_def split: sum.splits if_splits)

lemma handler_200:
  assumes "handler w req = Response 200 (Json b)"
  obtains inp llmJson where "parse_request (rt w) (req_body req) = Inr (Continue inp)"
    and "ask_language_model w inp = Inr llmJson"
    and "respond_with_candidates w (the (env_MAPBOX_TOKEN w)) inp llmJson = Inr (Response 200 (Json b))"
proof -
  from assms have tried: "handler_try w req = Inr (Response 200 (Json b))"
    by (auto simp: handler_def split: if_splits sum.splits)
  then obtain st where st: "parse_request (rt w) (req_body req) = Inr st"
    by (auto simp: handler_try_def and_then_def split: sum.splits)
  show ?thesis
  proof (cases st)
    case (Respond resp)
    with st have "resp = Response 400 (Text ''Missing trip.destination_query'')"
      by (simp add: parse_request_responds)
    with tried st Respond show ?thesis by (simp add: handler_try_def and_then_def)
  next
    case (Continue inp)
    with tried st obtain llmJson where "ask_language_model w inp = Inr llmJson"
      and "respond_with_candidates w (the (env_MAPBOX_TOKEN w)) inp llmJson = Inr (Response 200 (Json b))"
      by (auto simp: handler_try_def and_then_def split: if_splits sum.splits)
    with st Continue that show ?thesis by simp
  qed
qed

lemma respond_places:
  assumes "respond_with_candidates w token inp llmJson = Inr (Response 200 (Json b))"
    and "p \<in> set (places b)"
  obtains bb n cs geocoded where "geocode_loop w token (destinationQuery inp) bb n [] cs = Inr geocoded"
    and "p \<in> set geocoded"
proof -
  from assms obtain bb cs geocoded where loop: "geocode_loop w token (destinationQuery inp) bb 1 [] cs = Inr geocoded"
    and "places b = dedupePlaces geocoded"
    by (auto simp: respond_with_candidates_def Let_def and_then_def split: if_splits sum.splits)
  with assms(2) have "p \<in> set (dedupePlaces geocoded)" by simp
  moreover have "set (dedupePlaces geocoded) \<subseteq> set geocoded"
    using dedupe_loop_subseq [of "{}" geocoded] by (auto simp: dedupePlaces_def dest: list_emb_set)
  ultimately have "p \<in> set geocoded" by auto
  with loop that show ?thesis by blast
qed

text \<open>
  C1, as the code has it. In a response with status 200, every place carries as \<open>lng\<close>
  and \<open>lat\<close> the two elements of the \<^verbatim>\<open>center\<close> of the top feature of a geocoder reply,
  and that \<^verbatim>\<open>center\<close> is an array of exactly two elements. A candidate whose top feature is
  missing or falsy, or whose \<^verbatim>\<open>center\<close> is not an array of exactly two elements, is dropped.
  Line 78 tests nothing else: the two elements are passed on as they are.
\<close>

theorem places_carry_feature_center:
  "(handler w req = Response 200 (Json b) \<and> p \<in> set (places b) \<longrightarrow>
      (\<exists>k query bbox r.
          mapboxGeocode w k (the (env_MAPBOX_TOKEN w)) query 1 ''poi,neighborhood,place,address'' bbox = Inr r
          \<and> get_prop (opt_index0 (opt_prop r ''features'')) ''center'' = JArr [lng p, lat p]))
   \<and> (trim_method (or_else (opt_prop c ''name'') (JStr [])) = Inr name \<and> name \<noteq> []
        \<and> mapboxGeocode w n token (name @ '', '' @ dq) 1 ''poi,neighborhood,place,address'' bb = Inr reply
        \<and> \<not> usable_feature (opt_index0 (opt_prop reply ''features''))
       \<longrightarrow> geocode_loop w token dq bb n geocoded (c # cs)
           = geocode_loop w token dq bb (Suc n) geocoded cs)"
proof (intro conjI impI)
  assume "handler w req = Response 200 (Json b) \<and> p \<in> set (places b)"
  then have h: "handler w req = Response 200 (Json b)" and p: "p \<in> set (places b)" by simp_all
  from h obtain inp llmJson where
    "respond_with_candidates w (the (env_MAPBOX_TOKEN w)) inp llmJson = Inr (Response 200 (Json b))"
    by (rule handler_200)
  from this p obtain bb' n' cs' geocoded' where
    "geocode_loop w (the (env_MAPBOX_TOKEN w)) (destinationQuery inp) bb' n' [] cs' = Inr geocoded'"
    and "p \<in> set geocoded'"
    by (rule respond_places)
  then show "\<exists>k query bbox r.
          mapboxGeocode w k (the (env_MAPBOX_TOKEN w)) query 1 ''poi,neighborhood,place,address'' bbox = Inr r
          \<and> get_prop (opt_index0 (opt_prop r ''features'')) ''center'' = JArr [lng p, lat p]"
    using geocode_loop_places [of w "the (env_MAPBOX_TOKEN w)" "destinationQuery inp" bb' n' "[]" cs' geocoded' p]
    by auto
next
  assume "trim_method (or_else (opt_prop c ''name'') (JStr [])) = Inr name \<and> name \<noteq> []
        \<and> mapboxGeocode w n token (name @ '', '' @ dq) 1 ''poi,neighborhood,place,address'' bb = Inr reply
        \<and> \<not> usable_feature (opt_index0 (opt_prop reply ''features''))"
  then show "geocode_loop w token dq bb n geocoded (c # cs)
           = geocode_loop w token dq bb (Suc n) geocoded cs"
    by (elim conjE) (rule geocode_loop_drop)
qed

theorem places_carry_feature_center_witness:
  "handler (sample_world two_places_text (geocoder_with belem_center)) lisbon_request
     = Response 200 (Json (lisbon_body [belem_place (JNum (Fin (387 / 10))) (JNum (Fin (- 92 / 10)))]))
   \<and> (\<exists>k query bbox r.
          mapboxGeocode (sample_world two_places_text (geocoder_with belem_center)) k ''pk-test'' query 1
            ''poi,neighborhood,place,address'' bbox = Inr r
          \<and> get_prop (opt_index0 (opt_prop r ''features'')) ''center''
              = JArr [JNum (Fin (- 92 / 10)), JNum (Fin (387 / 10))])
   \<and> geocode_loop (sample_world two_places_text (geocoder_with (JArr [JNum (Fin 1)]))) ''pk-test'' ''Lisbon''
         JNull 2 [] [torre_de_belem]
       = geocode_loop (sample_world two_places_text (geocoder_with (JArr [JNum (Fin 1)]))) ''pk-test'' ''Lisbon''
         JNull 3 [] []"
proof -
  let ?w = "sample_world two_places_text (geocoder_with belem_center)"
  let ?p = "belem_place (JNum (Fin (387 / 10))) (JNum (Fin (- 92 / 10)))"
  let ?v = "sample_world two_places_text (geocoder_with (JArr [JNum (Fin 1)]))"
  have resp: "handler ?w lisbon_request = Response 200 (Json (lisbon_body [?p]))"
    unfolding belem_center_def by (rule handler_two_places)
  have "handler ?w lisbon_request = Response 200 (Json (lisbon_body [?p]))
          \<and> ?p \<in> set (places (lisbon_body [?p])) \<longrightarrow>
        (\<exists>k query bbox r.
          mapboxGeocode ?w k (the (env_MAPBOX_TOKEN ?w)) query 1 ''poi,neighborhood,place,address'' bbox = Inr r
          \<and> get_prop (opt_index0 (opt_prop r ''features'')) ''center'' = JArr [lng ?p, lat ?p])"
    using places_carry_feature_center [of ?w lisbon_request "lisbon_body [?p]" ?p] by (rule conjunct1)
  moreover have "?p \<in> set (places (lisbon_body [?p]))"
    by (simp add: lisbon_body_def)
  ultimately have found: "\<exists>k query bbox r.
          mapboxGeocode ?w k (the (env_MAPBOX_TOKEN ?w)) query 1 ''poi,neighborhood,place,address'' bbox = Inr r
          \<and> get_prop (opt_index0 (opt_prop r ''features'')) ''center'' = JArr [lng ?p, lat ?p]"
    using resp by blast
  have token: "the (env_MAPBOX_TOKEN ?w) = ''pk-test''"
    by (simp add: sample_world_def)
  have coords: "lng ?p = JNum (Fin (- 92 / 10))" "lat ?p = JNum (Fin (387 / 10))"
    by (simp_all add: belem_place_def)
  have "trim_method (or_else (opt_prop torre_de_belem ''name'') (JStr [])) = Inr ''Torre de Belem''
        \<and> ''Torre de Belem'' \<noteq> []
        \<and> mapboxGeocode ?v 2 ''pk-test'' (''Torre de Belem'' @ '', '' @ ''Lisbon'') 1
            ''poi,neighborhood,place,address'' JNull = Inr (feature_at (JArr [JNum (Fin 1)]))
        \<and> \<not> usable_feature (opt_index0 (opt_prop (feature_at (JArr [JNum (Fin 1)])) ''features''))
       \<longrightarrow> geocode_loop ?v ''pk-test'' ''Lisbon'' JNull 2 [] (torre_de_belem # [])
           = geocode_loop ?v ''pk-test'' ''Lisbon'' JNull (Suc 2) [] []"
    using places_carry_feature_center [of ?v lisbon_request "lisbon_body []" ?p torre_de_belem
        "''Torre de Belem''" 2 "''pk-test''" "''Lisbon''" JNull "feature_at (JArr [JNum (Fin 1)])" "[]" "[]"]
    by (rule conjunct2)
  moreover have "trim_method (or_else (opt_prop torre_de_belem ''name'') (JStr [])) = Inr ''Torre de Belem''"
    by (simp add: torre_de_belem_def request_eval text_eval)
  moreover have "mapboxGeocode ?v 2 ''pk-test'' (''Torre de Belem'' @ '', '' @ ''Lisbon'') 1
            ''poi,neighborhood,place,address'' JNull = Inr (feature_at (JArr [JNum (Fin 1)]))"
    by (rule geocode_belem)
  moreover have "\<not> usable_feature (opt_index0 (opt_prop (feature_at (JArr [JNum (Fin 1)])) ''features''))"
    by (simp add: feature_at_def opt_prop_def usable_feature_def)
  ultimately have "geocode_loop ?v ''pk-test'' ''Lisbon'' JNull 2 [] (torre_de_belem # [])
           = geocode_loop ?v ''pk-test'' ''Lisbon'' JNull (Suc 2) [] []"
    by blast
  also have "Suc 2 = (3::nat)" by simp
  finally have dropped: "geocode_loop ?v ''pk-test'' ''Lisbon'' JNull 2 [] [torre_de_belem]
           = geocode_loop ?v ''pk-test'' ''Lisbon'' JNull 3 [] []" .
  from found have "\<exists>k query bbox r.
          mapboxGeocode ?w k ''pk-test'' query 1 ''poi,neighborhood,place,address'' bbox = Inr r
          \<and> get_prop (opt_index0 (opt_prop r ''features'')) ''center''
              = JArr [JNum (Fin (- 92 / 10)), JNum (Fin (387 / 10))]"
    by (simp only: token coords)
  with resp dropped show ?thesis by (intro conjI)
qed

text \<open>
  C1 as stated fails. When the top feature of a candidate has the \<^verbatim>\<open>center\<close>
  \<^verbatim>\<open>[null, null]\<close>, the handler answers 200 with a place whose \<open>lat\<close> and \<open>lng\<close> are
  \<^verbatim>\<open>null\<close>.
\<close>

theorem null_coordinates_emitted:
  "handler (sample_world two_places_text (geocoder_with (JArr [JNull, JNull]))) lisbon_request
     = Response 200 (Json (lisbon_body [belem_place JNull JNull]))
   \<and> \<not> is_finite_number (lat (belem_place JNull JNull))
   \<and> \<not> is_finite_number (lng (belem_place JNull JNull))"
  by (simp add: handler_two_places) (simp add: belem_place_def)

end
